theory Spec2Isabelle
  imports Complex_Main "HOL-Library.AList" "HOL-Library.Multiset"
begin

section \<open>A four-stage search cascade\<close>

text \<open>
  A shallow embedding of the search server: the inverted index
  (\<^verbatim>\<open>Layer1InvertedIndex\<close>), the BM25 scorer (\<^verbatim>\<open>Layer2BM25\<close>), the
  vector re-ranker (\<^verbatim>\<open>Layer3VectorSearch\<close>), the personalization re-ranker
  (\<^verbatim>\<open>Layer4Personalization\<close>) and the aggregating \<^verbatim>\<open>SearchService\<close>.

  Conventions of the embedding.
  \<^item> A JavaScript \<^verbatim>\<open>number\<close> that counts is an \<open>int\<close> or a \<open>nat\<close>; a
    \<^verbatim>\<open>number\<close> that scores is a \<open>real\<close>. The scores are therefore the exact
    values of the formulas the code evaluates in IEEE double precision; rounding,
    \<^verbatim>\<open>NaN\<close> and \<^verbatim>\<open>Infinity\<close> are outside the model, and the theorems that
    depend on a quotient or a logarithm say where its argument must lie.
  \<^item> The maps \<^verbatim>\<open>documents\<close> and \<^verbatim>\<open>documentLengths\<close> are association lists in
    insertion order (\<open>AList.update\<close> keeps the position of a key that is present
    and appends a new one, as \<^verbatim>\<open>Map.set\<close> does); the maps that the modelled
    operations only read and write by key are partial functions. A \<^verbatim>\<open>Set\<close> is a
    list in insertion order.
  \<^item> A string is a \<open>string\<close>; the character functions are those of ASCII.
  \<^item> A thrown error is the left summand of the result.
  \<^item> \<^verbatim>\<open>Date.now()\<close> differences (\<^verbatim>\<open>executionTime\<close>) and the wall clock read by
    the personalization stage are inputs.
  \<^item> Record fields carry a prefix (\<open>d_\<close> for \<^verbatim>\<open>Document\<close>, \<open>r_\<close> for
    \<^verbatim>\<open>SearchResult\<close>, \<open>l1_\<close> to \<open>l4_\<close> for the fields and methods of a
    layer), since several classes of the source use one name.
\<close>

subsection \<open>Strings\<close>

definition toLowerChar :: "char \<Rightarrow> char" where
  "toLowerChar c =
     (let n = (of_char c :: nat) in if 65 \<le> n \<and> n \<le> 90 then char_of (n + 32) else c)"

definition toLowerCase :: "string \<Rightarrow> string" where
  "toLowerCase s = map toLowerChar s"

text \<open>The class \<^verbatim>\<open>\w\<close> of a JavaScript regular expression: \<^verbatim>\<open>[A-Za-z0-9_]\<close>.\<close>

definition isWordChar :: "char \<Rightarrow> bool" where
  "isWordChar c =
     (let n = (of_char c :: nat) in
        (48 \<le> n \<and> n \<le> 57) \<or> (65 \<le> n \<and> n \<le> 90) \<or> n = 95 \<or> (97 \<le> n \<and> n \<le> 122))"




text \<open>\<^verbatim>\<open>Set.prototype.add\<close> and \<^verbatim>\<open>new Set(array)\<close> on a set kept in insertion order.\<close>

definition setAdd :: "'a \<Rightarrow> 'a list \<Rightarrow> 'a list" where
  "setAdd x xs = (if x \<in> set xs then xs else xs @ [x])"

definition newSet :: "'a list \<Rightarrow> 'a list" where
  "newSet xs = foldl (\<lambda>acc x. setAdd x acc) [] xs"

subsection \<open>Types (\<^verbatim>\<open>types/index.ts\<close>) and configuration (\<^verbatim>\<open>config/index.ts\<close>)\<close>

text \<open>
  The free-form \<^verbatim>\<open>metadata\<close> object is modelled by the keys the program reads
  (\<open>category\<close>, \<open>createdAt\<close>, \<open>location\<close>, \<open>mobileOptimized\<close>, \<open>desktopOptimized\<close>,
  \<open>ageGroup\<close>, \<open>tags\<close>) and the keys the stages write, each at the type the program
  uses it at; \<open>None\<close> is an absent key. A \<^verbatim>\<open>Date\<close> is its \<^verbatim>\<open>getTime()\<close>,
  in milliseconds.
\<close>

record Metadata =
  m_category :: "string option"
  m_createdAt :: "int option"
  m_location :: "(real \<times> real) option"
  m_mobileOptimized :: "bool option"
  m_desktopOptimized :: "bool option"
  m_ageGroup :: "string option"
  m_tags :: "string list option"
  m_bm25Score :: "real option"
  m_termScores :: "(string \<times> real) list option"
  m_documentLength :: "nat option"
  m_vectorSimilarity :: "real option"
  m_combinedScore :: "real option"
  m_personalizationBoost :: "real option"
  m_userRelevance :: "real option"
  m_contextBoost :: "real option"
  m_contextualRelevance :: "real option"
  m_temporalBoost :: "real option"
  m_temporalRelevance :: "real option"

definition emptyMetadata :: Metadata where
  "emptyMetadata =
     \<lparr>m_category = None, m_createdAt = None, m_location = None, m_mobileOptimized = None,
      m_desktopOptimized = None, m_ageGroup = None, m_tags = None, m_bm25Score = None,
      m_termScores = None, m_documentLength = None, m_vectorSimilarity = None,
      m_combinedScore = None, m_personalizationBoost = None, m_userRelevance = None,
      m_contextBoost = None, m_contextualRelevance = None, m_temporalBoost = None,
      m_temporalRelevance = None\<rparr>"

record Document =
  d_id :: string
  d_title :: string
  d_content :: string
  d_url :: "string option"
  d_category :: "string option"
  d_tags :: "string list option"
  d_createdAt :: int
  d_updatedAt :: int
  d_metadata :: "Metadata option"

record SearchResult =
  r_id :: string
  r_title :: string
  r_content :: string
  r_url :: "string option"
  r_score :: real
  r_metadata :: Metadata

record SearchContext =
  c_location :: "(real \<times> real) option"
  c_timestamp :: "int option"
  c_device :: "string option"
  c_sessionId :: "string option"
  c_previousQueries :: "string list option"

record SearchRequest =
  q_query :: string
  q_userId :: "string option"
  q_limit :: "nat option"
  q_offset :: "nat option"
  q_context :: "SearchContext option"

record Layer1Result =
  documentIds1 :: "string list"
  totalCount1 :: nat
  executionTime1 :: nat

record Layer2Result =
  results2 :: "SearchResult list"
  totalCount2 :: nat
  executionTime2 :: nat

record Layer3Result =
  results3 :: "SearchResult list"
  totalCount3 :: nat
  executionTime3 :: nat
  vectorScores3 :: "real list"


text \<open>
  \<^verbatim>\<open>SearchError\<close> with its code, \<^verbatim>\<open>LayerError\<close> with its layer, and a plain
  \<^verbatim>\<open>Error\<close>, which a layer throws inside a \<^verbatim>\<open>try\<close> that wraps it.
\<close>

datatype error = SearchError string | LayerError string | PlainError

record Config =
  maxResultsLayer1 :: nat
  maxResultsLayer2 :: nat
  maxResultsLayer3 :: nat
  maxFinalResults :: nat
  userProfileWeight :: real
  contextWeight :: real
  temporalWeight :: real

text \<open>The values \<^verbatim>\<open>config\<close> takes when the environment sets none.\<close>

definition defaultConfig :: Config where
  "defaultConfig =
     \<lparr>maxResultsLayer1 = 10000, maxResultsLayer2 = 1000, maxResultsLayer3 = 100,
      maxFinalResults = 20, userProfileWeight = 3 / 10, contextWeight = 2 / 10,
      temporalWeight = 1 / 10\<rparr>"

subsection \<open>Tokenizing (\<^verbatim>\<open>tokenizeAndNormalize\<close>, the same in both layers)\<close>

definition stopWords :: "string list" where
  "stopWords =
     [''the'', ''a'', ''an'', ''and'', ''or'', ''but'', ''in'', ''on'', ''at'', ''to'', ''for'',
      ''of'', ''with'', ''by'', ''is'', ''are'', ''was'', ''were'', ''be'', ''been'', ''have'',
      ''has'', ''had'', ''do'', ''does'', ''did'', ''will'', ''would'', ''could'', ''should'',
      ''may'', ''might'', ''can'', ''this'', ''that'', ''these'', ''those'', ''i'', ''you'',
      ''he'', ''she'', ''it'', ''we'', ''they'', ''me'', ''him'', ''her'', ''us'', ''them'']"

definition isStopWord :: "string \<Rightarrow> bool" where
  "isStopWord token = (token \<in> set stopWords)"

text \<open>
  The first argument is the layer's \<^verbatim>\<open>this.tokenizer.tokenize\<close>, a word tokenizer of
  the package \<^verbatim>\<open>natural\<close>.
\<close>

definition tokenizeAndNormalize :: "(string \<Rightarrow> string list) \<Rightarrow> string \<Rightarrow> string list" where
  "tokenizeAndNormalize tk text =
     filter (\<lambda>token. length token > 2 \<and> \<not> isStopWord token)
       (map (filter isWordChar) (tk (toLowerCase text)))"

text \<open>
  \<^verbatim>\<open>natural.WordTokenizer\<close> belongs to a package outside the repository, so the
  layers take their tokenizer as a field and the theorems hold for every tokenizer.
  The examples use this one, which splits its input at every maximal run of
  characters outside \<^verbatim>\<open>[A-Za-z0-9_]\<close> and drops empty pieces, as section 4.1 of the
  specification has a word tokenizer do.
\<close>

fun wordRuns :: "string \<Rightarrow> string \<Rightarrow> string list" where
  "wordRuns cur [] = (if cur = [] then [] else [cur])"
| "wordRuns cur (c # cs) =
     (if isWordChar c then wordRuns (cur @ [c]) cs
      else (if cur = [] then [] else [cur]) @ wordRuns [] cs)"

definition wordTokenizer :: "string \<Rightarrow> string list" where
  "wordTokenizer s = wordRuns [] s"

subsection \<open>Stage 1: \<^verbatim>\<open>Layer1InvertedIndex\<close>\<close>

record InvertedIndexEntry =
  e_term :: string
  e_documentIds :: "string list"
  e_termFrequency :: "string \<rightharpoonup> nat"
  e_documentFrequency :: nat

record Layer1InvertedIndex =
  l1_index :: "string \<rightharpoonup> InvertedIndexEntry"
  l1_documentCount :: int
  l1_totalTerms :: nat
  l1_documents :: "(string \<times> Document) list"
  l1_tokenizer :: "string \<Rightarrow> string list"

definition l1_new :: "(string \<Rightarrow> string list) \<Rightarrow> Layer1InvertedIndex" where
  "l1_new tk =
     \<lparr>l1_index = Map.empty, l1_documentCount = 0, l1_totalTerms = 0, l1_documents = [],
      l1_tokenizer = tk\<rparr>"

definition l1_allTokens :: "Layer1InvertedIndex \<Rightarrow> Document \<Rightarrow> string list" where
  "l1_allTokens s d =
     tokenizeAndNormalize (l1_tokenizer s) (d_title d) @
     tokenizeAndNormalize (l1_tokenizer s) (d_content d)"

text \<open>The body of the \<^verbatim>\<open>forEach\<close> of \<^verbatim>\<open>addDocument\<close>, for one token.\<close>

definition l1_addToken ::
  "string \<Rightarrow> (string \<rightharpoonup> InvertedIndexEntry) \<Rightarrow> string \<Rightarrow> (string \<rightharpoonup> InvertedIndexEntry)" where
  "l1_addToken docId idx token =
     (let entry = (case idx token of
                     None \<Rightarrow> \<lparr>e_term = token, e_documentIds = [],
                               e_termFrequency = Map.empty, e_documentFrequency = 0\<rparr>
                   | Some e \<Rightarrow> e);
          ids = setAdd docId (e_documentIds entry);
          currentTf = (case e_termFrequency entry docId of None \<Rightarrow> 0 | Some n \<Rightarrow> n)
      in idx(token \<mapsto> entry\<lparr>e_documentIds := ids,
                              e_termFrequency := (e_termFrequency entry)(docId \<mapsto> currentTf + 1),
                              e_documentFrequency := length ids\<rparr>))"

definition l1_addDocument :: "Document \<Rightarrow> Layer1InvertedIndex \<Rightarrow> Layer1InvertedIndex" where
  "l1_addDocument d s =
     (let allTokens = l1_allTokens s d
      in s\<lparr>l1_documents := AList.update (d_id d) d (l1_documents s),
            l1_documentCount := l1_documentCount s + 1,
            l1_index := foldl (l1_addToken (d_id d)) (l1_index s) allTokens,
            l1_totalTerms := l1_totalTerms s + length allTokens\<rparr>)"

text \<open>The body of the \<^verbatim>\<open>forEach\<close> of \<^verbatim>\<open>removeDocument\<close>, for one token.\<close>

definition l1_removeToken ::
  "string \<Rightarrow> (string \<rightharpoonup> InvertedIndexEntry) \<Rightarrow> string \<Rightarrow> (string \<rightharpoonup> InvertedIndexEntry)" where
  "l1_removeToken docId idx token =
     (case idx token of
        None \<Rightarrow> idx
      | Some entry \<Rightarrow>
          (let ids = removeAll docId (e_documentIds entry)
           in if length ids = 0 then idx(token := None)
              else idx(token \<mapsto> entry\<lparr>e_documentIds := ids,
                                      e_termFrequency := (e_termFrequency entry)(docId := None),
                                      e_documentFrequency := length ids\<rparr>)))"

definition l1_removeDocument :: "string \<Rightarrow> Layer1InvertedIndex \<Rightarrow> bool \<times> Layer1InvertedIndex" where
  "l1_removeDocument documentId s =
     (case map_of (l1_documents s) documentId of
        None \<Rightarrow> (False, s)
      | Some d \<Rightarrow>
          (True,
           s\<lparr>l1_index := foldl (l1_removeToken documentId) (l1_index s) (l1_allTokens s d),
             l1_documents := AList.delete documentId (l1_documents s),
             l1_documentCount := l1_documentCount s - 1\<rparr>))"

text \<open>The statistics \<^verbatim>\<open>getIndexStats\<close> reports, but for the number of entries.\<close>

definition l1_averageTermsPerDocument :: "Layer1InvertedIndex \<Rightarrow> real" where
  "l1_averageTermsPerDocument s =
     (if l1_documentCount s > 0 then real (l1_totalTerms s) / real_of_int (l1_documentCount s)
      else 0)"

definition unionDocuments :: "Layer1InvertedIndex \<Rightarrow> string list \<Rightarrow> string list" where
  "unionDocuments s tokens =
     foldl (\<lambda>result token.
              case l1_index s token of
                None \<Rightarrow> result
              | Some entry \<Rightarrow> foldl (\<lambda>acc docId. setAdd docId acc) result (e_documentIds entry))
       [] tokens"

text \<open>
  The loop of \<^verbatim>\<open>intersectDocuments\<close> from the second token on: a token without an
  entry clears the result and leaves the loop.
\<close>

fun intersectLoop :: "Layer1InvertedIndex \<Rightarrow> string list \<Rightarrow> string list \<Rightarrow> string list" where
  "intersectLoop s result [] = result"
| "intersectLoop s result (token # tokens) =
     (case l1_index s token of
        None \<Rightarrow> []
      | Some entry \<Rightarrow>
          intersectLoop s (filter (\<lambda>docId. docId \<in> set (e_documentIds entry)) result) tokens)"

definition intersectDocuments :: "Layer1InvertedIndex \<Rightarrow> string list \<Rightarrow> string list" where
  "intersectDocuments s tokens =
     (case tokens of
        [] \<Rightarrow> []
      | firstToken # rest \<Rightarrow>
          intersectLoop s
            (case l1_index s firstToken of None \<Rightarrow> [] | Some firstEntry \<Rightarrow> e_documentIds firstEntry)
            rest)"

definition excludeDocuments :: "Layer1InvertedIndex \<Rightarrow> string list \<Rightarrow> string list" where
  "excludeDocuments s tokens =
     (let allDocuments = map fst (l1_documents s);
          excluded = unionDocuments s tokens
      in filter (\<lambda>docId. docId \<notin> set excluded) allDocuments)"


datatype operator = AND | OR | NOT

text \<open>The \<^verbatim>\<open>switch\<close> of \<^verbatim>\<open>booleanSearch\<close>: the result set before it is cut.\<close>

fun resultDocuments :: "operator \<Rightarrow> Layer1InvertedIndex \<Rightarrow> string list \<Rightarrow> string list" where
  "resultDocuments AND s queryTokens = intersectDocuments s queryTokens"
| "resultDocuments OR s queryTokens = unionDocuments s queryTokens"
| "resultDocuments NOT s queryTokens = excludeDocuments s queryTokens"

definition booleanSearch ::
  "Config \<Rightarrow> nat \<Rightarrow> string \<Rightarrow> operator \<Rightarrow> Layer1InvertedIndex \<Rightarrow> Layer1Result" where
  "booleanSearch cfg elapsed query operator s =
     (let queryTokens = tokenizeAndNormalize (l1_tokenizer s) query
      in if length queryTokens = 0
         then \<lparr>documentIds1 = [], totalCount1 = 0, executionTime1 = elapsed\<rparr>
         else (let found = resultDocuments operator s queryTokens
               in \<lparr>documentIds1 = take (maxResultsLayer1 cfg) found,
                   totalCount1 = length found,
                   executionTime1 = elapsed\<rparr>))"

text \<open>The posting set of a token: the ids of its entry, none without an entry.\<close>

definition postings :: "Layer1InvertedIndex \<Rightarrow> string \<Rightarrow> string set" where
  "postings s token = (case l1_index s token of None \<Rightarrow> {} | Some entry \<Rightarrow> set (e_documentIds entry))"

subsection \<open>Stage 2: \<^verbatim>\<open>Layer2BM25\<close>\<close>

record BM25Params =
  bm_k1 :: real
  bm_b :: real

record BM25Score =
  s_documentId :: string
  s_score :: real
  s_termScores :: "(string \<times> real) list"

record Layer2BM25 =
  l2_documents :: "(string \<times> Document) list"
  l2_documentLengths :: "(string \<times> nat) list"
  l2_averageDocumentLength :: real
  l2_termDocumentFrequency :: "string \<rightharpoonup> nat"
  l2_totalDocuments :: int
  l2_tokenizer :: "string \<Rightarrow> string list"
  l2_bm25Params :: BM25Params

text \<open>\<^verbatim>\<open>new Layer2BM25()\<close>, as the service constructs it: \<open>k1 = 1.2\<close>, \<open>b = 0.75\<close>.\<close>

definition l2_new :: "(string \<Rightarrow> string list) \<Rightarrow> Layer2BM25" where
  "l2_new tk =
     \<lparr>l2_documents = [], l2_documentLengths = [], l2_averageDocumentLength = 0,
      l2_termDocumentFrequency = Map.empty, l2_totalDocuments = 0, l2_tokenizer = tk,
      l2_bm25Params = \<lparr>bm_k1 = 12 / 10, bm_b = 75 / 100\<rparr>\<rparr>"

definition l2_tokens :: "Layer2BM25 \<Rightarrow> Document \<Rightarrow> string list" where
  "l2_tokens s d = tokenizeAndNormalize (l2_tokenizer s) (d_title d @ '' '' @ d_content d)"

definition updateAverageDocumentLength :: "Layer2BM25 \<Rightarrow> Layer2BM25" where
  "updateAverageDocumentLength s =
     (if l2_totalDocuments s = 0 then s\<lparr>l2_averageDocumentLength := 0\<rparr>
      else (let totalLength = foldl (\<lambda>sum len. sum + len) 0 (map snd (l2_documentLengths s))
            in s\<lparr>l2_averageDocumentLength :=
                    real totalLength / real_of_int (l2_totalDocuments s)\<rparr>))"

text \<open>\<^verbatim>\<open>map.get(token) || 0\<close>\<close>

definition getOr0 :: "('k \<rightharpoonup> nat) \<Rightarrow> 'k \<Rightarrow> nat" where
  "getOr0 m k = (case m k of None \<Rightarrow> 0 | Some n \<Rightarrow> n)"

definition l2_incrementDf :: "(string \<rightharpoonup> nat) \<Rightarrow> string \<Rightarrow> (string \<rightharpoonup> nat)" where
  "l2_incrementDf m token = (let currentDf = getOr0 m token in m(token \<mapsto> currentDf + 1))"

definition l2_decrementDf :: "(string \<rightharpoonup> nat) \<Rightarrow> string \<Rightarrow> (string \<rightharpoonup> nat)" where
  "l2_decrementDf m token =
     (let currentDf = getOr0 m token
      in if currentDf > 1 then m(token \<mapsto> currentDf - 1) else m(token := None))"

definition l2_addDocument :: "Document \<Rightarrow> Layer2BM25 \<Rightarrow> Layer2BM25" where
  "l2_addDocument d s =
     (let tokens = l2_tokens s d;
          documentLength = length tokens;
          s1 = updateAverageDocumentLength
                 (s\<lparr>l2_documents := AList.update (d_id d) d (l2_documents s),
                    l2_documentLengths := AList.update (d_id d) documentLength (l2_documentLengths s),
                    l2_totalDocuments := l2_totalDocuments s + 1\<rparr>);
          uniqueTokens = newSet tokens
      in s1\<lparr>l2_termDocumentFrequency :=
               foldl l2_incrementDf (l2_termDocumentFrequency s1) uniqueTokens\<rparr>)"

definition l2_removeDocument :: "string \<Rightarrow> Layer2BM25 \<Rightarrow> bool \<times> Layer2BM25" where
  "l2_removeDocument documentId s =
     (case map_of (l2_documents s) documentId of
        None \<Rightarrow> (False, s)
      | Some d \<Rightarrow>
          (let uniqueTokens = newSet (l2_tokens s d)
           in (True,
               updateAverageDocumentLength
                 (s\<lparr>l2_termDocumentFrequency :=
                      foldl l2_decrementDf (l2_termDocumentFrequency s) uniqueTokens,
                    l2_documents := AList.delete documentId (l2_documents s),
                    l2_documentLengths := AList.delete documentId (l2_documentLengths s),
                    l2_totalDocuments := l2_totalDocuments s - 1\<rparr>))))"

definition getTermFrequency :: "Layer2BM25 \<Rightarrow> string \<Rightarrow> string \<Rightarrow> nat" where
  "getTermFrequency s trm documentId =
     (case map_of (l2_documents s) documentId of
        None \<Rightarrow> 0
      | Some d \<Rightarrow> length (filter (\<lambda>token. token = trm) (l2_tokens s d)))"

text \<open>
  The body of the inner \<^verbatim>\<open>forEach\<close> of \<^verbatim>\<open>calculateBM25Scores\<close>: the running
  \<^verbatim>\<open>totalScore\<close> and \<^verbatim>\<open>termScores\<close>, updated for one query term.
\<close>

definition bm25Step ::
  "Layer2BM25 \<Rightarrow> string \<Rightarrow> nat \<Rightarrow> real \<times> (string \<times> real) list \<Rightarrow> string
     \<Rightarrow> real \<times> (string \<times> real) list" where
  "bm25Step s documentId documentLength acc trm =
     (let tf = getTermFrequency s trm documentId;
          df = getOr0 (l2_termDocumentFrequency s) trm
      in if tf > 0 \<and> df > 0
         then (let idf = ln ((real_of_int (l2_totalDocuments s) - real df + 5 / 10) / (real df + 5 / 10));
                   numerator = real tf * (bm_k1 (l2_bm25Params s) + 1);
                   denominator =
                     real tf +
                     bm_k1 (l2_bm25Params s) *
                       (1 - bm_b (l2_bm25Params s) +
                        bm_b (l2_bm25Params s) *
                          (real documentLength / l2_averageDocumentLength s));
                   termScore = idf * (numerator / denominator)
               in (fst acc + termScore, AList.update trm termScore (snd acc)))
         else acc)"

definition bm25Document :: "Layer2BM25 \<Rightarrow> string list \<Rightarrow> string \<Rightarrow> real \<times> (string \<times> real) list" where
  "bm25Document s queryTokens documentId =
     (let documentLength = getOr0 (map_of (l2_documentLengths s)) documentId
      in foldl (bm25Step s documentId documentLength) (0, []) queryTokens)"

text \<open>The body of the outer \<^verbatim>\<open>forEach\<close>: a document is pushed when its total is positive.\<close>

definition bm25Push :: "Layer2BM25 \<Rightarrow> string list \<Rightarrow> BM25Score list \<Rightarrow> string \<Rightarrow> BM25Score list" where
  "bm25Push s queryTokens scores documentId =
     (let (totalScore, termScores) = bm25Document s queryTokens documentId
      in if totalScore > 0
         then scores @ [\<lparr>s_documentId = documentId, s_score = totalScore,
                         s_termScores = termScores\<rparr>]
         else scores)"

definition calculateBM25Scores :: "Layer2BM25 \<Rightarrow> string list \<Rightarrow> string list \<Rightarrow> BM25Score list" where
  "calculateBM25Scores s queryTokens documentIds = foldl (bm25Push s queryTokens) [] documentIds"

definition truncateContent :: "string \<Rightarrow> nat \<Rightarrow> string" where
  "truncateContent content maxLength =
     (if length content \<le> maxLength then content else take maxLength content @ ''...'')"

text \<open>\<^verbatim>\<open>a ?? b\<close> for a key that a later spread may overwrite.\<close>

definition orElse :: "'a option \<Rightarrow> 'a \<Rightarrow> 'a option" where
  "orElse later earlier = (case later of None \<Rightarrow> Some earlier | Some v \<Rightarrow> Some v)"

text \<open>
  The callback that turns a score into a \<^verbatim>\<open>SearchResult\<close>; it throws when the
  document is not stored. The keys of \<^verbatim>\<open>document.metadata\<close> are spread last.
\<close>

definition l2_toResult :: "Layer2BM25 \<Rightarrow> BM25Score \<Rightarrow> error + SearchResult" where
  "l2_toResult s sc =
     (case map_of (l2_documents s) (s_documentId sc) of
        None \<Rightarrow> Inl PlainError
      | Some document \<Rightarrow>
          (let dm = (case d_metadata document of None \<Rightarrow> emptyMetadata | Some m \<Rightarrow> m)
           in Inr \<lparr>r_id = d_id document, r_title = d_title document,
                   r_content = truncateContent (d_content document) 200,
                   r_url = d_url document, r_score = s_score sc,
                   r_metadata =
                     dm\<lparr>m_bm25Score := orElse (m_bm25Score dm) (s_score sc),
                        m_termScores := orElse (m_termScores dm) (s_termScores sc),
                        m_documentLength :=
                          orElse (m_documentLength dm)
                            (getOr0 (map_of (l2_documentLengths s)) (d_id document))\<rparr>\<rparr>))"

text \<open>\<^verbatim>\<open>Array.prototype.map\<close> with a callback that may throw.\<close>

fun mapE :: "('a \<Rightarrow> error + 'b) \<Rightarrow> 'a list \<Rightarrow> error + 'b list" where
  "mapE f [] = Inr []"
| "mapE f (x # xs) =
     (case f x of
        Inl e \<Rightarrow> Inl e
      | Inr y \<Rightarrow> (case mapE f xs of Inl e \<Rightarrow> Inl e | Inr ys \<Rightarrow> Inr (y # ys)))"

text \<open>
  \<^verbatim>\<open>xs.sort((a, b) => b.score - a.score)\<close>: a stable sort by descending score.
\<close>

definition sortDescending :: "('a \<Rightarrow> real) \<Rightarrow> 'a list \<Rightarrow> 'a list" where
  "sortDescending key xs = sort_key (\<lambda>x. - key x) xs"

definition l2_search ::
  "Config \<Rightarrow> nat \<Rightarrow> SearchRequest \<Rightarrow> Layer1Result \<Rightarrow> Layer2BM25 \<Rightarrow> error + Layer2Result" where
  "l2_search cfg elapsed request layer1Results s =
     (let queryTokens = tokenizeAndNormalize (l2_tokenizer s) (q_query request)
      in if length queryTokens = 0 \<or> length (documentIds1 layer1Results) = 0
         then Inr \<lparr>results2 = [], totalCount2 = 0, executionTime2 = elapsed\<rparr>
         else (let bm25Scores =
                     sortDescending s_score
                       (calculateBM25Scores s queryTokens (documentIds1 layer1Results));
                   limitedScores = take (maxResultsLayer2 cfg) bm25Scores
               in case mapE (l2_toResult s) limitedScores of
                    Inl e \<Rightarrow> Inl (LayerError ''Layer2'')
                  | Inr results \<Rightarrow>
                      Inr \<lparr>results2 = results, totalCount2 = length bm25Scores,
                           executionTime2 = elapsed\<rparr>))"

subsection \<open>Stage 3: \<^verbatim>\<open>Layer3VectorSearch\<close>\<close>

record VectorEmbedding =
  v_documentId :: string
  v_vector :: "real list"
  v_metadata :: Metadata

record VectorSearchResult =
  vs_documentId :: string
  vs_similarity :: real
  vs_vector :: "real list"

text \<open>
  The embedding model is a function from a text to a vector that may throw (\<open>None\<close>);
  \<^verbatim>\<open>pipeline(...)\<close>, which loads it, is an input of the operations that load:
  \<open>None\<close> when the load throws.
\<close>

type_synonym embedder = "string \<Rightarrow> real list option"

record Layer3VectorSearch =
  l3_embeddings :: "string \<rightharpoonup> VectorEmbedding"
  l3_model :: "embedder option"
  l3_isModelLoaded :: bool

definition l3_new :: Layer3VectorSearch where
  "l3_new = \<lparr>l3_embeddings = Map.empty, l3_model = None, l3_isModelLoaded = False\<rparr>"

definition initializeModel :: "embedder option \<Rightarrow> Layer3VectorSearch \<Rightarrow> error + Layer3VectorSearch" where
  "initializeModel pipeline s =
     (case pipeline of
        None \<Rightarrow> Inl (LayerError ''Layer3'')
      | Some m \<Rightarrow> Inr (s\<lparr>l3_model := Some m, l3_isModelLoaded := True\<rparr>))"

definition createEmbedding :: "Layer3VectorSearch \<Rightarrow> string \<Rightarrow> error + real list" where
  "createEmbedding s text =
     (case l3_model s of
        None \<Rightarrow> Inl (LayerError ''Layer3'')
      | Some m \<Rightarrow>
          if \<not> l3_isModelLoaded s then Inl (LayerError ''Layer3'')
          else (case m text of None \<Rightarrow> Inl (LayerError ''Layer3'') | Some v \<Rightarrow> Inr v))"

text \<open>\<^verbatim>\<open>if (!this.isModelLoaded) await this.initializeModel()\<close>\<close>

definition ensureModel :: "embedder option \<Rightarrow> Layer3VectorSearch \<Rightarrow> error + Layer3VectorSearch" where
  "ensureModel pipeline s = (if l3_isModelLoaded s then Inr s else initializeModel pipeline s)"

definition l3_addDocument ::
  "embedder option \<Rightarrow> Document \<Rightarrow> Layer3VectorSearch \<Rightarrow> error + Layer3VectorSearch" where
  "l3_addDocument pipeline d s =
     (case ensureModel pipeline s of
        Inl e \<Rightarrow> Inl (LayerError ''Layer3'')
      | Inr s1 \<Rightarrow>
          (case createEmbedding s1 (d_title d @ '' '' @ d_content d) of
             Inl e \<Rightarrow> Inl (LayerError ''Layer3'')
           | Inr vec \<Rightarrow>
               (let dm = (case d_metadata d of None \<Rightarrow> emptyMetadata | Some m \<Rightarrow> m)
                in Inr (s1\<lparr>l3_embeddings := (l3_embeddings s1)(d_id d \<mapsto>
                          \<lparr>v_documentId = d_id d, v_vector = vec,
                           v_metadata =
                             dm\<lparr>m_category :=
                                  (case m_category dm of None \<Rightarrow> d_category d | Some c \<Rightarrow> Some c),
                                m_createdAt := orElse (m_createdAt dm) (d_createdAt d)\<rparr>\<rparr>)\<rparr>))))"

text \<open>
  The loop of \<^verbatim>\<open>calculateCosineSimilarity\<close> accumulates \<^verbatim>\<open>dotProduct\<close>,
  \<^verbatim>\<open>normA\<close> and \<^verbatim>\<open>normB\<close>; vectors of different lengths throw.
\<close>

definition calculateCosineSimilarity :: "real list \<Rightarrow> real list \<Rightarrow> error + real" where
  "calculateCosineSimilarity vectorA vectorB =
     (if length vectorA \<noteq> length vectorB then Inl PlainError
      else (let (dotProduct, normA, normB) =
                  foldl (\<lambda>(dp, na, nb) (x, y). (dp + x * y, na + x * x, nb + y * y))
                    (0, 0, 0) (zip vectorA vectorB)
            in if normA = 0 \<or> normB = 0 then Inr 0
               else Inr (dotProduct / (sqrt normA * sqrt normB))))"

text \<open>The \<^verbatim>\<open>for\<close> loop of \<^verbatim>\<open>search\<close> that fills \<^verbatim>\<open>vectorScores\<close>.\<close>

fun vectorScoresLoop ::
  "Layer3VectorSearch \<Rightarrow> real list \<Rightarrow> SearchResult list \<Rightarrow> error + VectorSearchResult list" where
  "vectorScoresLoop s queryEmbedding [] = Inr []"
| "vectorScoresLoop s queryEmbedding (result # results) =
     (case l3_embeddings s (r_id result) of
        None \<Rightarrow> vectorScoresLoop s queryEmbedding results
      | Some embedding \<Rightarrow>
          (case calculateCosineSimilarity queryEmbedding (v_vector embedding) of
             Inl e \<Rightarrow> Inl e
           | Inr similarity \<Rightarrow>
               (case vectorScoresLoop s queryEmbedding results of
                  Inl e \<Rightarrow> Inl e
                | Inr rest \<Rightarrow>
                    Inr (\<lparr>vs_documentId = r_id result, vs_similarity = similarity,
                          vs_vector = v_vector embedding\<rparr> # rest))))"

definition combineScores :: "SearchResult list \<Rightarrow> VectorSearchResult list \<Rightarrow> SearchResult list" where
  "combineScores bm25Results vectorResults =
     (let vectorScoreMap =
            foldl (\<lambda>m vr. m(vs_documentId vr \<mapsto> vs_similarity vr)) Map.empty vectorResults
      in map (\<lambda>result.
                (let vectorScore = (case vectorScoreMap (r_id result) of None \<Rightarrow> 0 | Some v \<Rightarrow> v);
                     bm25Score = r_score result;
                     combinedScore = 6 / 10 * bm25Score + 4 / 10 * vectorScore
                 in result\<lparr>r_score := combinedScore,
                           r_metadata := (r_metadata result)
                             \<lparr>m_vectorSimilarity := Some vectorScore,
                              m_combinedScore := Some combinedScore\<rparr>\<rparr>))
           bm25Results)"

definition l3_search ::
  "Config \<Rightarrow> embedder option \<Rightarrow> nat \<Rightarrow> SearchRequest \<Rightarrow> Layer2Result \<Rightarrow> Layer3VectorSearch
     \<Rightarrow> (error + Layer3Result) \<times> Layer3VectorSearch" where
  "l3_search cfg pipeline elapsed request layer2Results s =
     (case ensureModel pipeline s of
        Inl e \<Rightarrow> (Inl (LayerError ''Layer3''), s)
      | Inr s1 \<Rightarrow>
          if length (results2 layer2Results) = 0
          then (Inr \<lparr>results3 = [], totalCount3 = 0, executionTime3 = elapsed,
                     vectorScores3 = []\<rparr>, s1)
          else (case createEmbedding s1 (q_query request) of
                  Inl e \<Rightarrow> (Inl (LayerError ''Layer3''), s1)
                | Inr queryEmbedding \<Rightarrow>
                    (case vectorScoresLoop s1 queryEmbedding (results2 layer2Results) of
                       Inl e \<Rightarrow> (Inl (LayerError ''Layer3''), s1)
                     | Inr found \<Rightarrow>
                         (let vectorScores = sortDescending vs_similarity found;
                              combinedResults =
                                sortDescending r_score
                                  (combineScores (results2 layer2Results) vectorScores);
                              limitedResults = take (maxResultsLayer3 cfg) combinedResults
                          in (Inr \<lparr>results3 = limitedResults,
                                    totalCount3 = length combinedResults,
                                    executionTime3 = elapsed,
                                    vectorScores3 = map vs_similarity vectorScores\<rparr>, s1)))))"

definition removeEmbedding :: "string \<Rightarrow> Layer3VectorSearch \<Rightarrow> bool \<times> Layer3VectorSearch" where
  "removeEmbedding documentId s =
     (l3_embeddings s documentId \<noteq> None, s\<lparr>l3_embeddings := (l3_embeddings s)(documentId := None)\<rparr>)"

subsection \<open>Stage 4: \<^verbatim>\<open>Layer4Personalization\<close>\<close>

record Preferences =
  p_categories :: "string list"
  p_languages :: "string list"
  p_topics :: "string list"

record Behavior =
  b_clickHistory :: "string list"
  b_searchHistory :: "string list"
  b_timeSpent :: "string \<rightharpoonup> real"

record Demographics =
  g_age :: "nat option"
  g_location :: "string option"
  g_interests :: "string list option"

record UserProfile =
  u_userId :: string
  u_preferences :: Preferences
  u_behavior :: Behavior
  u_demographics :: "Demographics option"
  u_lastUpdated :: int

record ContextWeights =
  w_userProfile :: real
  w_context :: real
  w_temporal :: real
  w_location :: real

record Layer4Personalization =
  l4_userProfiles :: "string \<rightharpoonup> UserProfile"
  l4_contextWeights :: ContextWeights

definition l4_new :: "Config \<Rightarrow> Layer4Personalization" where
  "l4_new cfg =
     \<lparr>l4_userProfiles = Map.empty,
      l4_contextWeights =
        \<lparr>w_userProfile = userProfileWeight cfg, w_context = contextWeight cfg,
         w_temporal = temporalWeight cfg, w_location = 1 / 10\<rparr>\<rparr>"






























subsection \<open>The aggregating \<^verbatim>\<open>SearchService\<close>\<close>

record SearchService =
  layer1 :: Layer1InvertedIndex
  layer2 :: Layer2BM25
  layer3 :: Layer3VectorSearch
  layer4 :: Layer4Personalization
  isInitialized :: bool




definition ss_new :: "Config \<Rightarrow> (string \<Rightarrow> string list) \<Rightarrow> SearchService" where
  "ss_new cfg tk =
     \<lparr>layer1 = l1_new tk, layer2 = l2_new tk, layer3 = l3_new, layer4 = l4_new cfg,
      isInitialized = False\<rparr>"

definition initialize :: "embedder option \<Rightarrow> SearchService \<Rightarrow> error + SearchService" where
  "initialize pipeline s =
     (case initializeModel pipeline (layer3 s) of
        Inl e \<Rightarrow> Inl (SearchError ''INITIALIZATION_ERROR'')
      | Inr l3 \<Rightarrow> Inr (s\<lparr>layer3 := l3, isInitialized := True\<rparr>))"

text \<open>
  \<^verbatim>\<open>addDocument\<close> changes the first two layers before the third can throw; the
  state it leaves is returned beside the outcome.
\<close>

definition ss_addDocument ::
  "embedder option \<Rightarrow> Document \<Rightarrow> SearchService \<Rightarrow> error option \<times> SearchService" where
  "ss_addDocument pipeline d s =
     (let s1 = s\<lparr>layer1 := l1_addDocument d (layer1 s), layer2 := l2_addDocument d (layer2 s)\<rparr>
      in case l3_addDocument pipeline d (layer3 s1) of
           Inl e \<Rightarrow> (Some (SearchError ''ADD_DOCUMENT_ERROR''), s1)
         | Inr l3 \<Rightarrow> (None, s1\<lparr>layer3 := l3\<rparr>))"

definition ss_removeDocument :: "string \<Rightarrow> SearchService \<Rightarrow> bool \<times> SearchService" where
  "ss_removeDocument documentId s =
     (let (layer1Removed, l1) = l1_removeDocument documentId (layer1 s);
          (layer2Removed, l2) = l2_removeDocument documentId (layer2 s);
          (layer3Removed, l3) = removeEmbedding documentId (layer3 s);
          success = (layer1Removed \<and> layer2Removed \<and> layer3Removed)
      in (success, s\<lparr>layer1 := l1, layer2 := l2, layer3 := l3\<rparr>))"






subsection \<open>Notions used in the statements\<close>

text \<open>
  The score of the specification, in its words: \<open>idf\<close>, the contribution of one term,
  and the sum over the query tokens \<open>t\<close> with \<open>tf(t,d) > 0\<close> and \<open>df(t) > 0\<close>.
\<close>

definition spec_df :: "Layer2BM25 \<Rightarrow> string \<Rightarrow> nat" where
  "spec_df s t = (case l2_termDocumentFrequency s t of None \<Rightarrow> 0 | Some n \<Rightarrow> n)"

definition spec_idf :: "Layer2BM25 \<Rightarrow> string \<Rightarrow> real" where
  "spec_idf s t =
     ln ((real_of_int (l2_totalDocuments s) - real (spec_df s t) + 1 / 2) / (real (spec_df s t) + 1 / 2))"

definition spec_docLength :: "Layer2BM25 \<Rightarrow> string \<Rightarrow> nat" where
  "spec_docLength s d = (case map_of (l2_documentLengths s) d of None \<Rightarrow> 0 | Some n \<Rightarrow> n)"

definition spec_term :: "Layer2BM25 \<Rightarrow> string \<Rightarrow> string \<Rightarrow> real" where
  "spec_term s d t =
     spec_idf s t *
       (real (getTermFrequency s t d) * (bm_k1 (l2_bm25Params s) + 1) /
        (real (getTermFrequency s t d) +
         bm_k1 (l2_bm25Params s) *
           (1 - bm_b (l2_bm25Params s) +
            bm_b (l2_bm25Params s) * (real (spec_docLength s d) / l2_averageDocumentLength s))))"

definition spec_bm25 :: "Layer2BM25 \<Rightarrow> string list \<Rightarrow> string \<Rightarrow> real" where
  "spec_bm25 s Q d =
     (\<Sum>t\<leftarrow>filter (\<lambda>t. getTermFrequency s t d > 0 \<and> spec_df s t > 0) Q. spec_term s d t)"


text \<open>
  The similarity of the specification: the inner product of the two vectors over the
  product of their norms, 0 when a norm is 0; and 0 for a document without a stored
  vector. The fused score is \<open>0.6 \<cdot> bm25 + 0.4 \<cdot> cos\<close>.
\<close>

definition spec_dot :: "real list \<Rightarrow> real list \<Rightarrow> real" where
  "spec_dot a b = (\<Sum>(x, y)\<leftarrow>zip a b. x * y)"

definition spec_cosine :: "real list \<Rightarrow> real list \<Rightarrow> real" where
  "spec_cosine a b =
     (if spec_dot a a = 0 \<or> spec_dot b b = 0 then 0
      else spec_dot a b / (sqrt (spec_dot a a) * sqrt (spec_dot b b)))"

definition spec_similarity :: "Layer3VectorSearch \<Rightarrow> real list \<Rightarrow> SearchResult \<Rightarrow> real" where
  "spec_similarity s qv r =
     (case l3_embeddings s (r_id r) of None \<Rightarrow> 0 | Some e \<Rightarrow> spec_cosine qv (v_vector e))"

definition spec_fused :: "Layer3VectorSearch \<Rightarrow> real list \<Rightarrow> SearchResult \<Rightarrow> real" where
  "spec_fused s qv r = 6 / 10 * r_score r + 4 / 10 * spec_similarity s qv r"

text \<open>
  The term frequency Stage 1 holds for a token and a document id, 0 without an entry;
  and the number of stored documents of each stage (the size of its \<^verbatim>\<open>documents\<close>).
\<close>

definition l1_termFrequency :: "Layer1InvertedIndex \<Rightarrow> string \<Rightarrow> string \<Rightarrow> nat" where
  "l1_termFrequency s token docId =
     (case l1_index s token of None \<Rightarrow> 0 | Some entry \<Rightarrow> getOr0 (e_termFrequency entry) docId)"

definition l1_stored :: "Layer1InvertedIndex \<Rightarrow> nat" where
  "l1_stored s = length (l1_documents s)"

definition l2_stored :: "Layer2BM25 \<Rightarrow> nat" where
  "l2_stored s = length (l2_documents s)"



text \<open>
  The statistics of Stage 2 are those of its stored documents: the average length is
  the one \<^verbatim>\<open>updateAverageDocumentLength\<close> computes, and no document frequency is
  0. Every operation of the stage keeps this.
\<close>

definition l2_consistent :: "Layer2BM25 \<Rightarrow> bool" where
  "l2_consistent s =
     (updateAverageDocumentLength s = s \<and> (\<forall>t. l2_termDocumentFrequency s t \<noteq> Some 0))"




subsection \<open>Concrete inputs\<close>

text \<open>The documents of the scenarios in section 8 of the specification, and a third.\<close>

definition doc1 :: Document where
  "doc1 =
     \<lparr>d_id = ''d1'', d_title = ''Machine Learning'',
      d_content = ''algorithms that learn from data'', d_url = None, d_category = None,
      d_tags = None, d_createdAt = 0, d_updatedAt = 0, d_metadata = None\<rparr>"

definition doc2 :: Document where
  "doc2 =
     \<lparr>d_id = ''d2'', d_title = ''Deep Learning'',
      d_content = ''neural networks with multiple layers'', d_url = None, d_category = None,
      d_tags = None, d_createdAt = 0, d_updatedAt = 0, d_metadata = None\<rparr>"

definition doc3 :: Document where
  "doc3 =
     \<lparr>d_id = ''d3'', d_title = ''Cooking'',
      d_content = ''recipes for pasta sauce and fresh basil'', d_url = None, d_category = None,
      d_tags = None, d_createdAt = 0, d_updatedAt = 0, d_metadata = None\<rparr>"

definition index12 :: Layer1InvertedIndex where
  "index12 = l1_addDocument doc2 (l1_addDocument doc1 (l1_new wordTokenizer))"

definition request :: "string \<Rightarrow> SearchRequest" where
  "request q = \<lparr>q_query = q, q_userId = None, q_limit = None, q_offset = None, q_context = None\<rparr>"



definition unitEmbedder :: embedder where
  "unitEmbedder text = Some [1, 0]"

text \<open>The service after \<^verbatim>\<open>initialize()\<close>, with no document.\<close>

definition emptyService :: SearchService where
  "emptyService =
     (ss_new defaultConfig wordTokenizer)
       \<lparr>layer3 := l3_new\<lparr>l3_model := Some unitEmbedder, l3_isModelLoaded := True\<rparr>,
        isInitialized := True\<rparr>"

text \<open>
  The service after an \<^verbatim>\<open>addDocument\<close> whose third layer threw (the model did not
  load): the document is in the first two layers only.
\<close>

definition halfAdded :: SearchService where
  "halfAdded = snd (ss_addDocument None doc1 (ss_new defaultConfig wordTokenizer))"

definition result1 :: SearchResult where
  "result1 =
     \<lparr>r_id = ''d1'', r_title = ''Machine Learning'', r_content = ''algorithms'', r_url = None,
      r_score = 2, r_metadata = emptyMetadata\<rparr>"

definition result2 :: SearchResult where
  "result2 =
     \<lparr>r_id = ''d2'', r_title = ''Deep Learning'', r_content = ''neural networks'', r_url = None,
      r_score = 1, r_metadata = emptyMetadata\<rparr>"


definition corpus12 :: Layer2BM25 where
  "corpus12 = l2_addDocument doc2 (l2_addDocument doc1 (l2_new wordTokenizer))"

definition corpus123 :: Layer2BM25 where
  "corpus123 = l2_addDocument doc3 corpus12"

definition neuralCandidates :: Layer1Result where
  "neuralCandidates = \<lparr>documentIds1 = [''d2''], totalCount1 = 1, executionTime1 = 1\<rparr>"

definition neuralResult :: SearchResult where
  "neuralResult =
     \<lparr>r_id = ''d2'', r_title = ''Deep Learning'',
      r_content = ''neural networks with multiple layers'', r_url = None,
      r_score = ln (5 / 3),
      r_metadata =
        emptyMetadata\<lparr>m_bm25Score := Some (ln (5 / 3)),
                       m_termScores := Some [(''neural'', ln (5 / 3))],
                       m_documentLength := Some 6\<rparr>\<rparr>"

text \<open>A document whose content has 201 characters.\<close>

definition longDoc :: Document where
  "longDoc =
     \<lparr>d_id = ''long'', d_title = ''Long'', d_content = replicate 201 (CHR ''a''), d_url = None,
      d_category = None, d_tags = None, d_createdAt = 0, d_updatedAt = 0, d_metadata = None\<rparr>"

text \<open>An embedding model for the examples: unit vectors at an angle of cosine 3/5.\<close>

definition demoEmbedder :: embedder where
  "demoEmbedder text = Some (if text = ''learning'' then [1, 0] else [3 / 5, 4 / 5])"

definition vectorStore :: Layer3VectorSearch where
  "vectorStore =
     \<lparr>l3_embeddings = Map.empty(''d1'' \<mapsto>
        \<lparr>v_documentId = ''d1'', v_vector = [3 / 5, 4 / 5],
         v_metadata = emptyMetadata\<lparr>m_createdAt := Some 0\<rparr>\<rparr>),
      l3_model = Some demoEmbedder, l3_isModelLoaded = True\<rparr>"

definition stage2Output :: Layer2Result where
  "stage2Output = \<lparr>results2 = [result1, result2], totalCount2 = 2, executionTime2 = 1\<rparr>"

definition fused1 :: SearchResult where
  "fused1 =
     result1\<lparr>r_score := 36 / 25,
             r_metadata := emptyMetadata\<lparr>m_vectorSimilarity := Some (3 / 5),
                                          m_combinedScore := Some (36 / 25)\<rparr>\<rparr>"

definition fused2 :: SearchResult where
  "fused2 =
     result2\<lparr>r_score := 3 / 5,
             r_metadata := emptyMetadata\<lparr>m_vectorSimilarity := Some 0,
                                          m_combinedScore := Some (3 / 5)\<rparr>\<rparr>"

definition stage3Fused :: Layer3Result where
  "stage3Fused =
     \<lparr>results3 = [fused1, fused2], totalCount3 = 2, executionTime3 = 1, vectorScores3 = [3 / 5]\<rparr>"

definition once1 :: Layer1InvertedIndex where
  "once1 = l1_addDocument doc1 (l1_new wordTokenizer)"

definition once2 :: Layer2BM25 where
  "once2 = l2_addDocument doc1 (l2_new wordTokenizer)"

subsection \<open>Basic facts\<close>

lemma setAdd_set: "set (setAdd x xs) = insert x (set xs)"
  by (auto simp: setAdd_def)

lemma tokens_title1: "tokenizeAndNormalize wordTokenizer ''Machine Learning'' = [''machine'', ''learning'']"
  by code_simp

lemma tokens_content1:
  "tokenizeAndNormalize wordTokenizer ''algorithms that learn from data'' =
     [''algorithms'', ''learn'', ''from'', ''data'']"
  by code_simp

lemma tokens_title2: "tokenizeAndNormalize wordTokenizer ''Deep Learning'' = [''deep'', ''learning'']"
  by code_simp

lemma tokens_content2:
  "tokenizeAndNormalize wordTokenizer ''neural networks with multiple layers'' =
     [''neural'', ''networks'', ''multiple'', ''layers'']"
  by code_simp

lemma tokens_the: "tokenizeAndNormalize wordTokenizer ''the'' = []"
  by code_simp

lemma tokens_x: "tokenizeAndNormalize wordTokenizer ''x'' = []"
  by code_simp

lemma tokens_machine_deep:
  "tokenizeAndNormalize wordTokenizer ''machine deep'' = [''machine'', ''deep'']"
  by code_simp

lemmas tokens_simps =
  tokens_title1 tokens_content1 tokens_title2 tokens_content2 tokens_the tokens_x
  tokens_machine_deep

lemma index12_tokenizer: "l1_tokenizer index12 = wordTokenizer"
  by (simp add: index12_def l1_addDocument_def l1_new_def Let_def)

lemma index12_documents: "map fst (l1_documents index12) = [''d1'', ''d2'']"
  by (simp add: index12_def l1_addDocument_def l1_new_def Let_def doc1_def doc2_def)

lemma index12_postings:
  "postings index12 ''machine'' = {''d1''}" "postings index12 ''deep'' = {''d2''}"
  by (simp_all add: postings_def index12_def l1_addDocument_def l1_new_def Let_def doc1_def
        doc2_def l1_allTokens_def tokens_simps l1_addToken_def setAdd_def)

lemma initialize_emptyService:
  "initialize (Some unitEmbedder) (ss_new defaultConfig wordTokenizer) = Inr emptyService"
  by (simp add: initialize_def initializeModel_def emptyService_def ss_new_def)

section \<open>Boolean search (C4)\<close>

lemma foldl_setAdd_set: "set (foldl (\<lambda>acc docId. setAdd docId acc) acc ids) = set acc \<union> set ids"
  by (induction ids arbitrary: acc) (auto simp: setAdd_set)

lemma unionDocuments_set: "set (unionDocuments s tokens) = (\<Union>t\<in>set tokens. postings s t)"
proof -
  have "set (foldl (\<lambda>result token.
                case l1_index s token of
                  None \<Rightarrow> result
                | Some entry \<Rightarrow> foldl (\<lambda>acc docId. setAdd docId acc) result (e_documentIds entry))
              acc tokens) = set acc \<union> (\<Union>t\<in>set tokens. postings s t)" for acc
    by (induction tokens arbitrary: acc)
       (auto simp: foldl_setAdd_set postings_def split: option.splits)
  then show ?thesis
    by (simp add: unionDocuments_def)
qed

lemma intersectLoop_set:
  "set (intersectLoop s found tokens) = set found \<inter> (\<Inter>t\<in>set tokens. postings s t)"
  by (induction tokens arbitrary: found) (auto simp: postings_def split: option.splits)

lemma intersectDocuments_set:
  "tokens \<noteq> [] \<Longrightarrow> set (intersectDocuments s tokens) = (\<Inter>t\<in>set tokens. postings s t)"
  by (cases tokens)
     (auto simp: intersectDocuments_def intersectLoop_set postings_def split: option.splits)

lemma excludeDocuments_set:
  "set (excludeDocuments s tokens) = fst ` set (l1_documents s) - (\<Union>t\<in>set tokens. postings s t)"
  by (auto simp: excludeDocuments_def unionDocuments_set Let_def)

text \<open>
  C4, as amended. Let \<open>Q\<close> be the accepted tokens of the query. When \<open>Q\<close> is not empty,
  \<^verbatim>\<open>booleanSearch\<close> returns the first \<open>maxResultsLayer1\<close> members of a result set
  and the size of that set, and the set is: for AND the intersection of the posting
  sets of the tokens of \<open>Q\<close> (empty as soon as one token has no entry), for OR their
  union, for NOT the stored document ids outside that union. When \<open>Q\<close> is empty (an
  empty query, or one made of stop words and short words), the result is empty for
  every operator, NOT included.
\<close>

theorem boolean_search_sets:
  assumes "tokenizeAndNormalize (l1_tokenizer s) query = Q"
  shows "(Q \<noteq> [] \<longrightarrow>
            documentIds1 (booleanSearch cfg el query opr s) =
              take (maxResultsLayer1 cfg) (resultDocuments opr s Q) \<and>
            totalCount1 (booleanSearch cfg el query opr s) = length (resultDocuments opr s Q) \<and>
            set (resultDocuments AND s Q) = (\<Inter>t\<in>set Q. postings s t) \<and>
            set (resultDocuments OR s Q) = (\<Union>t\<in>set Q. postings s t) \<and>
            set (resultDocuments NOT s Q) =
              fst ` set (l1_documents s) - (\<Union>t\<in>set Q. postings s t)) \<and>
         (Q = [] \<longrightarrow>
            documentIds1 (booleanSearch cfg el query opr s) = [] \<and>
            totalCount1 (booleanSearch cfg el query opr s) = 0)"
  using assms
  by (simp add: booleanSearch_def Let_def intersectDocuments_set unionDocuments_set
        excludeDocuments_set)

text \<open>
  Scenarios S3 and S4: on the two documents, \<open>machine deep\<close> finds nothing with AND,
  both documents with OR, and nothing with NOT.
\<close>

theorem boolean_search_sets_witness:
  "tokenizeAndNormalize (l1_tokenizer index12) ''machine deep'' = [''machine'', ''deep''] \<and>
   set (resultDocuments AND index12 [''machine'', ''deep'']) = {} \<and>
   set (resultDocuments OR index12 [''machine'', ''deep'']) = {''d1'', ''d2''} \<and>
   set (resultDocuments NOT index12 [''machine'', ''deep'']) = {} \<and>
   documentIds1 (booleanSearch defaultConfig 0 ''machine deep'' OR index12) =
     take 10000 (resultDocuments OR index12 [''machine'', ''deep''])"
proof -
  have Q: "tokenizeAndNormalize (l1_tokenizer index12) ''machine deep'' = [''machine'', ''deep'']"
    by (simp add: index12_tokenizer tokens_simps)
  have docs: "fst ` set (l1_documents index12) = {''d1'', ''d2''}"
    using index12_documents by (metis list.set(1) list.set(2) set_map)
  have inter: "(\<Inter>t\<in>set [''machine'', ''deep'']. postings index12 t) = {}"
    by (simp add: index12_postings)
  have un: "(\<Union>t\<in>set [''machine'', ''deep'']. postings index12 t) = {''d1'', ''d2''}"
    by (simp add: index12_postings insert_commute)
  have cap: "maxResultsLayer1 defaultConfig = 10000"
    by (simp add: defaultConfig_def)
  from boolean_search_sets [OF Q, of defaultConfig 0 OR]
  show ?thesis
    unfolding inter un docs cap using Q by simp
qed

text \<open>
  The claim as stated fails on a query without accepted tokens: no stored document
  contains a token of \<open>the\<close>, which has none, and NOT returns no document.
\<close>

theorem boolean_search_not_counterexample:
  "tokenizeAndNormalize (l1_tokenizer index12) ''the'' = [] \<and>
   map fst (l1_documents index12) = [''d1'', ''d2''] \<and>
   documentIds1 (booleanSearch defaultConfig 0 ''the'' NOT index12) = [] \<and>
   totalCount1 (booleanSearch defaultConfig 0 ''the'' NOT index12) = 0"
  by (simp add: index12_tokenizer index12_documents tokens_simps booleanSearch_def)

section \<open>Removal through the service (C10)\<close>

lemma map_of_delete_same: "map_of (AList.delete k al) k = None"
  by (simp add: delete_conv')

lemma l1_removeDocument_gone:
  "map_of (l1_documents (snd (l1_removeDocument i s))) i = None"
  by (simp add: l1_removeDocument_def map_of_delete_same split: option.splits)

lemma updateAverageDocumentLength_documents:
  "l2_documents (updateAverageDocumentLength s) = l2_documents s"
  by (simp add: updateAverageDocumentLength_def Let_def)

lemma l2_removeDocument_gone:
  "map_of (l2_documents (snd (l2_removeDocument i s))) i = None"
  by (simp add: l2_removeDocument_def Let_def updateAverageDocumentLength_documents
        map_of_delete_same split: option.splits)

text \<open>
  C10. \<^verbatim>\<open>SearchService.removeDocument\<close> runs the removal of each of the three
  stages, whatever the others answer, and returns the conjunction of the answers:
  true exactly when the id was stored in all three. Afterwards the id is stored in
  none of them, also when the answer is false; nothing is restored.
\<close>

theorem remove_document_outcome:
  "fst (ss_removeDocument i s) =
     (map_of (l1_documents (layer1 s)) i \<noteq> None \<and>
      map_of (l2_documents (layer2 s)) i \<noteq> None \<and>
      l3_embeddings (layer3 s) i \<noteq> None) \<and>
   layer1 (snd (ss_removeDocument i s)) = snd (l1_removeDocument i (layer1 s)) \<and>
   layer2 (snd (ss_removeDocument i s)) = snd (l2_removeDocument i (layer2 s)) \<and>
   layer3 (snd (ss_removeDocument i s)) = snd (removeEmbedding i (layer3 s)) \<and>
   map_of (l1_documents (layer1 (snd (ss_removeDocument i s)))) i = None \<and>
   map_of (l2_documents (layer2 (snd (ss_removeDocument i s)))) i = None \<and>
   l3_embeddings (layer3 (snd (ss_removeDocument i s))) i = None"
proof -
  have answer: "fst (ss_removeDocument i s) =
     (map_of (l1_documents (layer1 s)) i \<noteq> None \<and>
      map_of (l2_documents (layer2 s)) i \<noteq> None \<and>
      l3_embeddings (layer3 s) i \<noteq> None)"
    by (auto simp: ss_removeDocument_def l1_removeDocument_def l2_removeDocument_def
          removeEmbedding_def Let_def split: option.splits prod.splits)
  have l1: "layer1 (snd (ss_removeDocument i s)) = snd (l1_removeDocument i (layer1 s))"
    by (simp add: ss_removeDocument_def Let_def split: prod.splits)
  have l2: "layer2 (snd (ss_removeDocument i s)) = snd (l2_removeDocument i (layer2 s))"
    by (simp add: ss_removeDocument_def Let_def split: prod.splits)
  have l3: "layer3 (snd (ss_removeDocument i s)) = snd (removeEmbedding i (layer3 s))"
    by (simp add: ss_removeDocument_def Let_def split: prod.splits)
  have g3: "l3_embeddings (snd (removeEmbedding i (layer3 s))) i = None"
    by (simp add: removeEmbedding_def)
  show ?thesis
    using answer l1 l2 l3 g3 l1_removeDocument_gone [of i "layer1 s"]
      l2_removeDocument_gone [of i "layer2 s"]
    by simp
qed

lemma halfAdded_layers:
  "map fst (l1_documents (layer1 halfAdded)) = [''d1'']"
  "map fst (l2_documents (layer2 halfAdded)) = [''d1'']"
  "l3_embeddings (layer3 halfAdded) = Map.empty"
  by (simp_all add: halfAdded_def ss_addDocument_def ss_new_def l3_addDocument_def
        ensureModel_def initializeModel_def l3_new_def l1_addDocument_def l1_new_def
        l2_addDocument_def l2_new_def updateAverageDocumentLength_def Let_def doc1_def)

text \<open>
  A removal that fails and still removes: the document is in the first two stages
  only, the answer is false, and both stages have lost the document.
\<close>

theorem remove_document_outcome_witness:
  "fst (ss_removeDocument ''d1'' halfAdded) = False \<and>
   map fst (l1_documents (layer1 halfAdded)) = [''d1''] \<and>
   map fst (l2_documents (layer2 halfAdded)) = [''d1''] \<and>
   map_of (l1_documents (layer1 (snd (ss_removeDocument ''d1'' halfAdded)))) ''d1'' = None \<and>
   map_of (l2_documents (layer2 (snd (ss_removeDocument ''d1'' halfAdded)))) ''d1'' = None"
  using remove_document_outcome [of "''d1''" halfAdded]
  by (simp add: halfAdded_layers l1_removeDocument_gone l2_removeDocument_gone)

section \<open>The personalization score of a request (C6)\<close>





section \<open>A search without candidates (C5)\<close>





lemma tokens_doc1:
  "tokenizeAndNormalize wordTokenizer ''Machine Learning algorithms that learn from data'' =
     [''machine'', ''learning'', ''algorithms'', ''learn'', ''from'', ''data'']"
  by code_simp

lemma tokens_doc2:
  "tokenizeAndNormalize wordTokenizer ''Deep Learning neural networks with multiple layers'' =
     [''deep'', ''learning'', ''neural'', ''networks'', ''multiple'', ''layers'']"
  by code_simp

lemma tokens_doc3:
  "tokenizeAndNormalize wordTokenizer ''Cooking recipes for pasta sauce and fresh basil'' =
     [''cooking'', ''recipes'', ''pasta'', ''sauce'', ''fresh'', ''basil'']"
  by code_simp

lemma tokens_neural: "tokenizeAndNormalize wordTokenizer ''neural'' = [''neural'']"
  by code_simp

lemma tokens_learning: "tokenizeAndNormalize wordTokenizer ''learning'' = [''learning'']"
  by code_simp

lemma corpus12_tokenizer: "l2_tokenizer corpus12 = wordTokenizer"
  by (simp add: corpus12_def l2_addDocument_def l2_new_def updateAverageDocumentLength_def Let_def)

lemma l2_tokens_docs:
  "l2_tokenizer s = wordTokenizer \<Longrightarrow>
     l2_tokens s doc1 = [''machine'', ''learning'', ''algorithms'', ''learn'', ''from'', ''data'']"
  "l2_tokenizer s = wordTokenizer \<Longrightarrow>
     l2_tokens s doc2 = [''deep'', ''learning'', ''neural'', ''networks'', ''multiple'', ''layers'']"
  "l2_tokenizer s = wordTokenizer \<Longrightarrow>
     l2_tokens s doc3 = [''cooking'', ''recipes'', ''pasta'', ''sauce'', ''fresh'', ''basil'']"
  by (simp_all add: l2_tokens_def doc1_def doc2_def doc3_def tokens_doc1 tokens_doc2 tokens_doc3)

lemma l2_addDocument_tokenizer: "l2_tokenizer (l2_addDocument d s) = l2_tokenizer s"
  by (simp add: l2_addDocument_def updateAverageDocumentLength_def Let_def)

lemma corpus12_fields:
  "l2_documents corpus12 = [(''d1'', doc1), (''d2'', doc2)]"
  "l2_documentLengths corpus12 = [(''d1'', 6), (''d2'', 6)]"
  "l2_averageDocumentLength corpus12 = 6"
  "l2_totalDocuments corpus12 = 2"
  "l2_bm25Params corpus12 = \<lparr>bm_k1 = 12 / 10, bm_b = 75 / 100\<rparr>"
  "l2_termDocumentFrequency corpus12 ''learning'' = Some 2"
  "l2_termDocumentFrequency corpus12 ''neural'' = Some 1"
  by (simp_all add: corpus12_def l2_addDocument_def Let_def l2_tokens_docs
        updateAverageDocumentLength_def l2_new_def newSet_def setAdd_def l2_incrementDf_def
        getOr0_def doc1_def [THEN arg_cong [of _ _ d_id]] doc2_def [THEN arg_cong [of _ _ d_id]])

section \<open>The BM25 score and the ranking of Stage 2 (C2)\<close>

lemma bm25Step_fst:
  "fst (foldl (bm25Step s d (spec_docLength s d)) acc Q) =
     fst acc + (\<Sum>t\<leftarrow>filter (\<lambda>t. getTermFrequency s t d > 0 \<and> spec_df s t > 0) Q. spec_term s d t)"
proof (induction Q arbitrary: acc)
  case Nil
  then show ?case by simp
next
  case (Cons t Q)
  show ?case
    by (simp add: Cons.IH)
       (simp add: bm25Step_def Let_def spec_term_def spec_idf_def spec_df_def getOr0_def)
qed

lemma bm25Document_fst: "fst (bm25Document s Q d) = spec_bm25 s Q d"
  using bm25Step_fst [of s d "(0, [])" Q]
  by (simp add: bm25Document_def spec_bm25_def spec_docLength_def getOr0_def Let_def)

lemma bm25Push_eq:
  "bm25Push s Q scores d =
     (if 0 < spec_bm25 s Q d
      then scores @ [\<lparr>s_documentId = d, s_score = spec_bm25 s Q d,
                      s_termScores = snd (bm25Document s Q d)\<rparr>]
      else scores)"
proof -
  obtain total ts where b: "bm25Document s Q d = (total, ts)"
    by (cases "bm25Document s Q d")
  then have "total = spec_bm25 s Q d"
    using bm25Document_fst [of s Q d] by simp
  then show ?thesis
    by (simp add: bm25Push_def b)
qed

lemma calculateBM25Scores_foldl:
  "foldl (bm25Push s Q) acc ids =
   acc @ map (\<lambda>d. \<lparr>s_documentId = d, s_score = spec_bm25 s Q d,
                    s_termScores = snd (bm25Document s Q d)\<rparr>)
           (filter (\<lambda>d. 0 < spec_bm25 s Q d) ids)"
  by (induction ids arbitrary: acc) (simp_all add: bm25Push_eq)

lemma calculateBM25Scores_eq:
  "calculateBM25Scores s Q ids =
     map (\<lambda>d. \<lparr>s_documentId = d, s_score = spec_bm25 s Q d,
                s_termScores = snd (bm25Document s Q d)\<rparr>)
       (filter (\<lambda>d. 0 < spec_bm25 s Q d) ids)"
  using calculateBM25Scores_foldl [of s Q "[]" ids]
  by (simp add: calculateBM25Scores_def)





lemma sortDescending_mset: "mset (sortDescending key xs) = mset xs"
  by (simp add: sortDescending_def)




lemma corpus123_tokenizer: "l2_tokenizer corpus123 = wordTokenizer"
  by (simp add: corpus123_def l2_addDocument_tokenizer corpus12_tokenizer)

lemma corpus123_fields:
  "l2_documents corpus123 = [(''d1'', doc1), (''d2'', doc2), (''d3'', doc3)]"
  "l2_documentLengths corpus123 = [(''d1'', 6), (''d2'', 6), (''d3'', 6)]"
  "l2_averageDocumentLength corpus123 = 6"
  "l2_totalDocuments corpus123 = 3"
  "l2_bm25Params corpus123 = \<lparr>bm_k1 = 12 / 10, bm_b = 75 / 100\<rparr>"
  "l2_termDocumentFrequency corpus123 ''neural'' = Some 1"
  by (simp_all add: corpus123_def l2_addDocument_def Let_def l2_tokens_docs corpus12_tokenizer
        corpus12_fields updateAverageDocumentLength_def newSet_def setAdd_def l2_incrementDf_def
        getOr0_def doc3_def [THEN arg_cong [of _ _ d_id]])

lemma corpus123_tf:
  "getTermFrequency corpus123 ''neural'' ''d1'' = 0"
  "getTermFrequency corpus123 ''neural'' ''d2'' = 1"
  "getTermFrequency corpus123 ''neural'' ''d3'' = 0"
  by (simp_all add: getTermFrequency_def corpus123_fields l2_tokens_docs corpus123_tokenizer)

lemma corpus123_neural:
  "spec_bm25 corpus123 [''neural''] ''d1'' = 0"
  "spec_bm25 corpus123 [''neural''] ''d2'' = ln (5 / 3)"
  "spec_bm25 corpus123 [''neural''] ''d3'' = 0"
  by (simp_all add: spec_bm25_def corpus123_tf spec_term_def spec_idf_def spec_df_def
        spec_docLength_def corpus123_fields)





section \<open>The content excerpt of a Stage-2 result (C8)\<close>

lemma l2_toResult_content:
  assumes "l2_toResult s sc = Inr r"
  shows "\<exists>document. map_of (l2_documents s) (s_documentId sc) = Some document \<and>
           r_id r = d_id document \<and> r_title r = d_title document \<and>
           r_content r = truncateContent (d_content document) 200"
  using assms by (auto simp: l2_toResult_def Let_def split: option.splits)

lemma mapE_member:
  assumes "mapE f xs = Inr ys" and "y \<in> set ys"
  shows "\<exists>x\<in>set xs. f x = Inr y"
  using assms
proof (induction xs arbitrary: ys)
  case Nil
  then show ?case by simp
next
  case (Cons x xs)
  from Cons.prems(1) obtain z zs where
    z: "f x = Inr z" and zs: "mapE f xs = Inr zs" and ys: "ys = z # zs"
    by (auto split: sum.splits)
  show ?case
  proof (cases "y = z")
    case True
    with z show ?thesis by simp
  next
    case False
    with Cons.prems(2) ys have "y \<in> set zs" by simp
    from Cons.IH [OF zs this] show ?thesis by auto
  qed
qed

text \<open>
  C8, as amended. The content of every Stage-2 result is the content of a stored
  document: unchanged when it has at most 200 characters, and otherwise its first 200
  characters followed by the three characters \<open>...\<close> (three full stops, not the
  single character of an ellipsis).
\<close>

theorem content_excerpt:
  assumes "l2_search cfg el req l1r s = Inr out"
    and "r \<in> set (results2 out)"
  shows "\<exists>k document.
           map_of (l2_documents s) k = Some document \<and> r_id r = d_id document \<and>
           r_content r =
             (if length (d_content document) \<le> 200 then d_content document
              else take 200 (d_content document) @ ''...'')"
proof -
  let ?Q = "tokenizeAndNormalize (l2_tokenizer s) (q_query req)"
  let ?X = "take (maxResultsLayer2 cfg)
              (sortDescending s_score (calculateBM25Scores s ?Q (documentIds1 l1r)))"
  have "mapE (l2_toResult s) ?X = Inr (results2 out)"
  proof (cases "length ?Q = 0 \<or> length (documentIds1 l1r) = 0")
    case True
    with assms(1) have "results2 out = []"
      by (auto simp: l2_search_def)
    with assms(2) show ?thesis by simp
  next
    case False
    with assms(1) show ?thesis
      by (auto simp: l2_search_def Let_def split: sum.splits)
  qed
  from mapE_member [OF this assms(2)] obtain sc where "l2_toResult s sc = Inr r"
    by blast
  from l2_toResult_content [OF this] obtain document where
    d: "map_of (l2_documents s) (s_documentId sc) = Some document" "r_id r = d_id document"
      "r_content r = truncateContent (d_content document) 200"
    by blast
  have "r_content r =
          (if length (d_content document) \<le> 200 then d_content document
           else take 200 (d_content document) @ ''...'')"
    using d(3) by (simp add: truncateContent_def)
  with d(1,2) show ?thesis
    by blast
qed

lemma corpus123_search_neural:
  "l2_search defaultConfig 1 (request ''neural'') neuralCandidates corpus123 =
     Inr \<lparr>results2 = [neuralResult], totalCount2 = 1, executionTime2 = 1\<rparr>"
proof -
  have q: "tokenizeAndNormalize (l2_tokenizer corpus123) (q_query (request ''neural'')) = [''neural'']"
    by (simp add: corpus123_tokenizer request_def tokens_neural)
  have pos: "(0::real) < ln (5 / 3)"
    by simp
  have ts: "snd (bm25Document corpus123 [''neural''] ''d2'') = [(''neural'', ln (5 / 3))]"
    by (simp add: bm25Document_def bm25Step_def Let_def corpus123_tf corpus123_fields getOr0_def)
  have x: "calculateBM25Scores corpus123 [''neural''] [''d2''] =
             [\<lparr>s_documentId = ''d2'', s_score = ln (5 / 3), s_termScores = [(''neural'', ln (5 / 3))]\<rparr>]"
    using pos by (simp add: calculateBM25Scores_eq corpus123_neural ts)
  show ?thesis
    by (simp add: l2_search_def q neuralCandidates_def x sortDescending_def defaultConfig_def
          l2_toResult_def corpus123_fields doc2_def neuralResult_def orElse_def emptyMetadata_def
          truncateContent_def getOr0_def)
qed

theorem content_excerpt_witness:
  "l2_search defaultConfig 1 (request ''neural'') neuralCandidates corpus123 =
     Inr \<lparr>results2 = [neuralResult], totalCount2 = 1, executionTime2 = 1\<rparr> \<and>
   neuralResult \<in> set (results2 \<lparr>results2 = [neuralResult], totalCount2 = 1, executionTime2 = 1\<rparr>) \<and>
   (\<exists>k document.
      map_of (l2_documents corpus123) k = Some document \<and> r_id neuralResult = d_id document \<and>
      r_content neuralResult =
        (if length (d_content document) \<le> 200 then d_content document
         else take 200 (d_content document) @ ''...''))"
proof -
  have m: "neuralResult \<in> set (results2 \<lparr>results2 = [neuralResult], totalCount2 = 1, executionTime2 = 1\<rparr>)"
    by simp
  from content_excerpt [OF corpus123_search_neural m] corpus123_search_neural m
  show ?thesis by blast
qed

text \<open>
  The claim as stated fails on every content longer than 200 characters: the excerpt
  of a content of 201 characters has 203 characters and ends in a full stop, where 200
  characters and one ellipsis character are 201.
\<close>

theorem content_excerpt_counterexample:
  "length (d_content longDoc) = 201 \<and>
   length (truncateContent (d_content longDoc) 200) = 203 \<and>
   last (truncateContent (d_content longDoc) 200) = CHR ''.'' \<and>
   l2_toResult (l2_addDocument longDoc (l2_new wordTokenizer))
     \<lparr>s_documentId = ''long'', s_score = 1, s_termScores = []\<rparr> =
     Inr \<lparr>r_id = ''long'', r_title = ''Long'', r_content = replicate 200 (CHR ''a'') @ ''...'',
          r_url = None, r_score = 1,
          r_metadata = emptyMetadata\<lparr>m_bm25Score := Some 1, m_termScores := Some [],
                                      m_documentLength := Some 2\<rparr>\<rparr>"
proof -
  have "l2_tokens (l2_new wordTokenizer) longDoc = [''long'', replicate 201 (CHR ''a'')]"
    unfolding l2_tokens_def l2_new_def longDoc_def by code_simp
  then show ?thesis
    by (simp add: longDoc_def truncateContent_def l2_toResult_def l2_addDocument_def l2_new_def
          updateAverageDocumentLength_def Let_def orElse_def emptyMetadata_def getOr0_def)
qed

section \<open>Score fusion in Stage 3 (C3)\<close>

lemma cosine_loop:
  "length a = length b \<Longrightarrow>
   foldl (\<lambda>(dp, na, nb) (x, y). (dp + x * y, na + x * x, nb + y * y)) (d0, n0, m0) (zip a b) =
     (d0 + spec_dot a b, n0 + spec_dot a a, m0 + spec_dot b b)"
proof (induction a b arbitrary: d0 n0 m0 rule: list_induct2)
  case Nil
  then show ?case by (simp add: spec_dot_def)
next
  case (Cons x xs y ys)
  have "spec_dot (x # xs) (y # ys) = x * y + spec_dot xs ys"
    "spec_dot (x # xs) (x # xs) = x * x + spec_dot xs xs"
    "spec_dot (y # ys) (y # ys) = y * y + spec_dot ys ys"
    by (simp_all add: spec_dot_def)
  then show ?case
    by (simp add: Cons.IH)
qed

lemma calculateCosineSimilarity_eq:
  "calculateCosineSimilarity a b =
     (if length a \<noteq> length b then Inl PlainError else Inr (spec_cosine a b))"
  using cosine_loop [of a b 0 0 0]
  by (simp add: calculateCosineSimilarity_def spec_cosine_def)

text \<open>
  Every entry of \<^verbatim>\<open>vectorScores\<close> is the similarity of a result with a stored
  vector, and every such result has an entry.
\<close>

lemma vectorScoresLoop_entries:
  assumes "vectorScoresLoop s qv results = Inr found"
  shows "(\<forall>vr\<in>set found.
            \<exists>e. l3_embeddings s (vs_documentId vr) = Some e \<and>
                vs_similarity vr = spec_cosine qv (v_vector e)) \<and>
         vs_documentId ` set found = {i \<in> r_id ` set results. l3_embeddings s i \<noteq> None}"
  using assms
proof (induction results arbitrary: found)
  case Nil
  then show ?case by simp
next
  case (Cons r results)
  show ?case
  proof (cases "l3_embeddings s (r_id r)")
    case None
    with Cons.prems have "vectorScoresLoop s qv results = Inr found"
      by simp
    from Cons.IH [OF this] None show ?thesis
      by auto
  next
    case (Some e)
    with Cons.prems obtain sim rest where
      sim: "calculateCosineSimilarity qv (v_vector e) = Inr sim"
      and rest: "vectorScoresLoop s qv results = Inr rest"
      and found: "found = \<lparr>vs_documentId = r_id r, vs_similarity = sim, vs_vector = v_vector e\<rparr> # rest"
      by (auto split: sum.splits)
    have "sim = spec_cosine qv (v_vector e)"
      using sim by (auto simp: calculateCosineSimilarity_eq split: if_splits)
    with Cons.IH [OF rest] Some found show ?thesis
      by auto
  qed
qed

lemma vectorScoreMap_lookup:
  assumes "\<forall>vr\<in>set vrs. vs_similarity vr = g (vs_documentId vr)"
  shows "foldl (\<lambda>m vr. m(vs_documentId vr \<mapsto> vs_similarity vr)) m0 vrs i =
           (if i \<in> vs_documentId ` set vrs then Some (g i) else m0 i)"
  using assms
proof (induction vrs arbitrary: m0)
  case Nil
  then show ?case by simp
next
  case (Cons vr vrs)
  then show ?case
    by (auto simp: image_iff)
qed

lemma combineScores_scores:
  assumes "vectorScoresLoop s qv results = Inr found"
    and "mset vectorResults = mset found"
  shows "map r_score (combineScores results vectorResults) = map (spec_fused s qv) results \<and>
         map r_id (combineScores results vectorResults) = map r_id results"
proof -
  let ?g = "\<lambda>i. case l3_embeddings s i of None \<Rightarrow> 0 | Some e \<Rightarrow> spec_cosine qv (v_vector e)"
  have same: "set vectorResults = set found"
    using assms(2) by (metis set_mset_mset)
  from vectorScoresLoop_entries [OF assms(1)] have
    ent: "\<forall>vr\<in>set vectorResults. vs_similarity vr = ?g (vs_documentId vr)"
    and ids: "vs_documentId ` set vectorResults = {i \<in> r_id ` set results. l3_embeddings s i \<noteq> None}"
    using same by auto
  have look: "(case foldl (\<lambda>m vr. m(vs_documentId vr \<mapsto> vs_similarity vr)) Map.empty vectorResults (r_id r) of
                 None \<Rightarrow> 0 | Some v \<Rightarrow> v) = spec_similarity s qv r"
    if "r \<in> set results" for r
  proof (cases "l3_embeddings s (r_id r)")
    case None
    then have "r_id r \<notin> vs_documentId ` set vectorResults"
      using ids by auto
    then show ?thesis
      using None by (simp add: vectorScoreMap_lookup [OF ent] spec_similarity_def)
  next
    case (Some e)
    then have "r_id r \<in> vs_documentId ` set vectorResults"
      using ids that by auto
    then show ?thesis
      using Some by (simp add: vectorScoreMap_lookup [OF ent] spec_similarity_def)
  qed
  show ?thesis
    by (simp add: combineScores_def Let_def comp_def spec_fused_def look cong: map_cong)
qed

lemma l3_search_unfold:
  assumes "fst (l3_search cfg pipeline el req l2r s) = Inr out"
    and "results2 l2r \<noteq> []"
  shows "\<exists>s1 qv found.
           snd (l3_search cfg pipeline el req l2r s) = s1 \<and>
           l3_embeddings s1 = l3_embeddings s \<and>
           createEmbedding s1 (q_query req) = Inr qv \<and>
           vectorScoresLoop s1 qv (results2 l2r) = Inr found \<and>
           out = \<lparr>results3 =
                    take (maxResultsLayer3 cfg)
                      (sortDescending r_score
                         (combineScores (results2 l2r) (sortDescending vs_similarity found))),
                  totalCount3 =
                    length (sortDescending r_score
                              (combineScores (results2 l2r) (sortDescending vs_similarity found))),
                  executionTime3 = el,
                  vectorScores3 = map vs_similarity (sortDescending vs_similarity found)\<rparr>"
proof -
  from assms obtain s1 where s1: "ensureModel pipeline s = Inr s1"
    by (auto simp: l3_search_def split: sum.splits)
  then have emb: "l3_embeddings s1 = l3_embeddings s"
    by (auto simp: ensureModel_def initializeModel_def split: if_splits option.splits)
  from assms s1 obtain qv where qv: "createEmbedding s1 (q_query req) = Inr qv"
    by (auto simp: l3_search_def split: sum.splits)
  from assms s1 qv obtain found where found: "vectorScoresLoop s1 qv (results2 l2r) = Inr found"
    by (auto simp: l3_search_def split: sum.splits)
  show ?thesis
    using assms s1 qv found emb by (auto simp: l3_search_def Let_def)
qed

text \<open>
  C3. When Stage 3 returns, the query has an embedding \<open>qv\<close>, and there is a list of
  combined results, one for each Stage-2 result in its order and with its id, whose
  score is 0.6 times the Stage-2 score plus 0.4 times the cosine similarity of \<open>qv\<close>
  and the stored vector of the document, the similarity being 0 for a document
  without a stored vector; the output is that list sorted by descending score and cut
  to \<open>maxResultsLayer3\<close>.
\<close>

theorem score_fusion:
  assumes "fst (l3_search cfg pipeline el req l2r s) = Inr out"
    and "results2 l2r \<noteq> []"
  shows "\<exists>qv combined.
           createEmbedding (snd (l3_search cfg pipeline el req l2r s)) (q_query req) = Inr qv \<and>
           map r_id combined = map r_id (results2 l2r) \<and>
           map r_score combined = map (spec_fused s qv) (results2 l2r) \<and>
           results3 out = take (maxResultsLayer3 cfg) (sortDescending r_score combined) \<and>
           totalCount3 out = length (results2 l2r)"
proof -
  from l3_search_unfold [OF assms] obtain s1 qv found where
    st: "snd (l3_search cfg pipeline el req l2r s) = s1"
    and emb: "l3_embeddings s1 = l3_embeddings s"
    and qv: "createEmbedding s1 (q_query req) = Inr qv"
    and found: "vectorScoresLoop s1 qv (results2 l2r) = Inr found"
    and out: "out = \<lparr>results3 =
                    take (maxResultsLayer3 cfg)
                      (sortDescending r_score
                         (combineScores (results2 l2r) (sortDescending vs_similarity found))),
                  totalCount3 =
                    length (sortDescending r_score
                              (combineScores (results2 l2r) (sortDescending vs_similarity found))),
                  executionTime3 = el,
                  vectorScores3 = map vs_similarity (sortDescending vs_similarity found)\<rparr>"
    by blast
  let ?combined = "combineScores (results2 l2r) (sortDescending vs_similarity found)"
  have sim: "spec_fused s1 qv = spec_fused s qv"
    by (rule ext) (simp add: spec_fused_def spec_similarity_def emb)
  have c: "map r_score ?combined = map (spec_fused s qv) (results2 l2r) \<and>
           map r_id ?combined = map r_id (results2 l2r)"
    using combineScores_scores [OF found, of "sortDescending vs_similarity found"] sim
    by (simp add: sortDescending_mset)
  have "length ?combined = length (results2 l2r)"
    by (simp add: combineScores_def)
  then have "totalCount3 out = length (results2 l2r)"
    using out by (simp add: sortDescending_def)
  with c out st qv show ?thesis
    by auto
qed

lemma vectorStore_search:
  "l3_search defaultConfig (Some demoEmbedder) 1 (request ''learning'') stage2Output vectorStore =
     (Inr stage3Fused, vectorStore)"
proof -
  have cos: "calculateCosineSimilarity [1, 0] [3 / 5, 4 / 5] = Inr (3 / 5)"
    by (simp add: calculateCosineSimilarity_eq spec_cosine_def spec_dot_def)
  have loop: "vectorScoresLoop vectorStore [1, 0] [result1, result2] =
                Inr [\<lparr>vs_documentId = ''d1'', vs_similarity = 3 / 5, vs_vector = [3 / 5, 4 / 5]\<rparr>]"
    by (simp add: vectorStore_def result1_def result2_def cos)
  have comb: "combineScores [result1, result2]
                [\<lparr>vs_documentId = ''d1'', vs_similarity = 3 / 5, vs_vector = [3 / 5, 4 / 5]\<rparr>] =
              [fused1, fused2]"
    by (simp add: combineScores_def Let_def result1_def result2_def fused1_def fused2_def)
  have sorted: "sortDescending r_score [fused1, fused2] = [fused1, fused2]"
    by (simp add: sortDescending_def fused1_def fused2_def result1_def result2_def)
  have loaded: "ensureModel (Some demoEmbedder) vectorStore = Inr vectorStore"
    by (simp add: ensureModel_def vectorStore_def)
  have qv: "createEmbedding vectorStore (q_query (request ''learning'')) = Inr [1, 0]"
    by (simp add: createEmbedding_def vectorStore_def demoEmbedder_def request_def)
  have rs: "results2 stage2Output = [result1, result2]"
    by (simp add: stage2Output_def)
  have single: "sortDescending vs_similarity
                  [\<lparr>vs_documentId = ''d1'', vs_similarity = 3 / 5, vs_vector = [3 / 5, 4 / 5]\<rparr>] =
                [\<lparr>vs_documentId = ''d1'', vs_similarity = 3 / 5, vs_vector = [3 / 5, 4 / 5]\<rparr>]"
    by (simp add: sortDescending_def)
  show ?thesis
    by (simp add: l3_search_def loaded qv rs loop single comb sorted defaultConfig_def
          stage3Fused_def del: vectorScoresLoop.simps)
qed

theorem score_fusion_witness:
  "fst (l3_search defaultConfig (Some demoEmbedder) 1 (request ''learning'') stage2Output vectorStore) =
     Inr stage3Fused \<and>
   results2 stage2Output \<noteq> [] \<and>
   map r_score (results2 stage2Output) = [2, 1] \<and>
   map r_score (results3 stage3Fused) = [6 / 10 * 2 + 4 / 10 * (3 / 5), 6 / 10 * 1 + 4 / 10 * 0] \<and>
   (\<exists>qv combined.
      createEmbedding vectorStore (q_query (request ''learning'')) = Inr qv \<and>
      map r_id combined = map r_id (results2 stage2Output) \<and>
      map r_score combined = map (spec_fused vectorStore qv) (results2 stage2Output) \<and>
      results3 stage3Fused = take (maxResultsLayer3 defaultConfig) (sortDescending r_score combined) \<and>
      totalCount3 stage3Fused = length (results2 stage2Output))"
proof -
  have a: "fst (l3_search defaultConfig (Some demoEmbedder) 1 (request ''learning'') stage2Output
                  vectorStore) = Inr stage3Fused"
    using vectorStore_search by simp
  have b: "results2 stage2Output \<noteq> []"
    by (simp add: stage2Output_def)
  have c: "map r_score (results2 stage2Output) = [2, 1]"
    by (simp add: stage2Output_def result1_def result2_def)
  have d: "map r_score (results3 stage3Fused) = [6 / 10 * 2 + 4 / 10 * (3 / 5), 6 / 10 * 1 + 4 / 10 * 0]"
    by (simp add: stage3Fused_def fused1_def fused2_def)
  have st: "snd (l3_search defaultConfig (Some demoEmbedder) 1 (request ''learning'') stage2Output
                   vectorStore) = vectorStore"
    using vectorStore_search by simp
  from score_fusion [OF a b] a b c d show ?thesis
    unfolding st by simp
qed

section \<open>Personalization without signals (C7)\<close>






section \<open>The document count and the stored documents\<close>

text \<open>
  In both stages the document count starts at the number of stored documents and
  never falls below it: an operation changes both by the same amount, except for an
  \<^verbatim>\<open>addDocument\<close> of a stored id, which raises the count alone.
\<close>

lemma delete_stored_length:
  assumes "map_of al k = Some v"
  shows "length (AList.delete k al) < length al"
proof -
  from assms have "(k, v) \<in> set al"
    by (rule map_of_SomeD)
  then have "length (filter (\<lambda>(k', _). k \<noteq> k') al) < length al"
    by (rule length_filter_less) simp
  then show ?thesis
    by (simp add: AList.delete_eq)
qed

lemma updateAverageDocumentLength_totalDocuments:
  "l2_totalDocuments (updateAverageDocumentLength s) = l2_totalDocuments s"
  by (simp add: updateAverageDocumentLength_def Let_def)

lemma update_length_le: "length (AList.update k v al) \<le> Suc (length al)"
  by (induction al) auto

lemma l1_count_new: "int (l1_stored (l1_new tk)) = l1_documentCount (l1_new tk)"
  by (simp add: l1_stored_def l1_new_def)

lemma l1_count_add:
  assumes "int (l1_stored s) \<le> l1_documentCount s"
  shows "int (l1_stored (l1_addDocument d s)) \<le> l1_documentCount (l1_addDocument d s)"
  using assms update_length_le [of "d_id d" d "l1_documents s"]
  by (simp add: l1_stored_def l1_addDocument_def Let_def)

lemma l1_count_remove:
  assumes "int (l1_stored s) \<le> l1_documentCount s"
  shows "int (l1_stored (snd (l1_removeDocument i s))) \<le>
           l1_documentCount (snd (l1_removeDocument i s))"
proof (cases "map_of (l1_documents s) i")
  case None
  with assms show ?thesis
    by (simp add: l1_removeDocument_def)
next
  case (Some d)
  from delete_stored_length [OF this] assms Some show ?thesis
    by (simp add: l1_stored_def l1_removeDocument_def)
qed

lemma l2_count_new: "int (l2_stored (l2_new tk)) = l2_totalDocuments (l2_new tk)"
  by (simp add: l2_stored_def l2_new_def)

lemma l2_count_add:
  assumes "int (l2_stored s) \<le> l2_totalDocuments s"
  shows "int (l2_stored (l2_addDocument d s)) \<le> l2_totalDocuments (l2_addDocument d s)"
  using assms update_length_le [of "d_id d" d "l2_documents s"]
  by (simp add: l2_stored_def l2_addDocument_def Let_def
        updateAverageDocumentLength_documents updateAverageDocumentLength_totalDocuments)

lemma l2_count_remove:
  assumes "int (l2_stored s) \<le> l2_totalDocuments s"
  shows "int (l2_stored (snd (l2_removeDocument i s))) \<le>
           l2_totalDocuments (snd (l2_removeDocument i s))"
proof (cases "map_of (l2_documents s) i")
  case None
  with assms show ?thesis
    by (simp add: l2_removeDocument_def)
next
  case (Some d)
  from delete_stored_length [OF this] assms Some show ?thesis
    by (simp add: l2_stored_def l2_removeDocument_def Let_def
          updateAverageDocumentLength_documents updateAverageDocumentLength_totalDocuments)
qed

section \<open>Adding a document whose id is stored (C9)\<close>

lemma update_stored_keys:
  "k \<in> fst ` set al \<Longrightarrow> map fst (AList.update k v al) = map fst al"
  by (induction al) auto

lemma update_stored_length:
  "k \<in> fst ` set al \<Longrightarrow> length (AList.update k v al) = length al"
  by (induction al) auto

lemma l1_addToken_tf:
  "(case l1_addToken i idx token t of None \<Rightarrow> 0 | Some e \<Rightarrow> getOr0 (e_termFrequency e) i) =
     (case idx t of None \<Rightarrow> 0 | Some e \<Rightarrow> getOr0 (e_termFrequency e) i) +
     (if t = token then 1 else 0)"
  by (simp add: l1_addToken_def Let_def getOr0_def split: option.splits)

lemma l1_addTokens_tf:
  "(case foldl (l1_addToken i) idx tokens t of None \<Rightarrow> 0 | Some e \<Rightarrow> getOr0 (e_termFrequency e) i) =
     (case idx t of None \<Rightarrow> 0 | Some e \<Rightarrow> getOr0 (e_termFrequency e) i) + count_list tokens t"
proof (induction tokens arbitrary: idx)
  case Nil
  then show ?case by simp
next
  case (Cons token tokens)
  show ?case
    using Cons.IH [of "l1_addToken i idx token"] l1_addToken_tf [of i idx token t]
    by auto
qed

lemma foldl_setAdd_distinct:
  "distinct acc \<Longrightarrow> distinct (foldl (\<lambda>acc x. setAdd x acc) acc xs)"
  by (induction xs arbitrary: acc) (simp_all add: setAdd_def)

lemma newSet_set: "set (newSet xs) = set xs"
  by (simp add: newSet_def foldl_setAdd_set)

lemma newSet_distinct: "distinct (newSet xs)"
  by (simp add: newSet_def foldl_setAdd_distinct)

lemma l2_incrementDf_all:
  "distinct ts \<Longrightarrow>
   getOr0 (foldl l2_incrementDf m ts) t = getOr0 m t + (if t \<in> set ts then 1 else 0)"
proof (induction ts arbitrary: m)
  case Nil
  then show ?case by simp
next
  case (Cons x ts)
  have "getOr0 (l2_incrementDf m x) t = getOr0 m t + (if t = x then 1 else 0)"
    by (simp add: l2_incrementDf_def getOr0_def Let_def)
  with Cons show ?case
    by auto
qed

lemma l2_addDocument_df:
  "spec_df (l2_addDocument d s) t = spec_df s t + (if t \<in> set (l2_tokens s d) then 1 else 0)"
proof -
  have "spec_df s' t = getOr0 (l2_termDocumentFrequency s') t" for s'
    by (simp add: spec_df_def getOr0_def)
  then show ?thesis
    using l2_incrementDf_all [OF newSet_distinct, of "l2_termDocumentFrequency s" "l2_tokens s d" t]
    by (simp add: l2_addDocument_def Let_def updateAverageDocumentLength_def newSet_set)
qed

text \<open>
  C9. Adding a document whose id is stored in Stage 1 and in Stage 2 stores no new id:
  the stored document is overwritten. Both stages count one document more all the
  same, Stage 1 adds the tokens of the document to \<open>totalTerms\<close> and to the term
  frequencies it holds for the id, on top of those of the earlier version, and Stage 2
  counts the document once more in the document frequency of each of its tokens. A
  count that was at least the number of stored documents, as it is after every
  sequence of operations on a new stage, exceeds it afterwards.
\<close>

theorem duplicate_add_double_counts:
  assumes "d_id d \<in> fst ` set (l1_documents s1)"
    and "d_id d \<in> fst ` set (l2_documents s2)"
  shows "map fst (l1_documents (l1_addDocument d s1)) = map fst (l1_documents s1) \<and>
         map_of (l1_documents (l1_addDocument d s1)) (d_id d) = Some d \<and>
         l1_documentCount (l1_addDocument d s1) = l1_documentCount s1 + 1 \<and>
         l1_totalTerms (l1_addDocument d s1) = l1_totalTerms s1 + length (l1_allTokens s1 d) \<and>
         (\<forall>t. l1_termFrequency (l1_addDocument d s1) t (d_id d) =
                l1_termFrequency s1 t (d_id d) + count_list (l1_allTokens s1 d) t) \<and>
         (int (l1_stored s1) \<le> l1_documentCount s1 \<longrightarrow>
            int (l1_stored (l1_addDocument d s1)) < l1_documentCount (l1_addDocument d s1)) \<and>
         map fst (l2_documents (l2_addDocument d s2)) = map fst (l2_documents s2) \<and>
         map_of (l2_documents (l2_addDocument d s2)) (d_id d) = Some d \<and>
         l2_totalDocuments (l2_addDocument d s2) = l2_totalDocuments s2 + 1 \<and>
         (\<forall>t\<in>set (l2_tokens s2 d). spec_df (l2_addDocument d s2) t = spec_df s2 t + 1) \<and>
         (int (l2_stored s2) \<le> l2_totalDocuments s2 \<longrightarrow>
            int (l2_stored (l2_addDocument d s2)) < l2_totalDocuments (l2_addDocument d s2))"
proof -
  have a: "map fst (l1_documents (l1_addDocument d s1)) = map fst (l1_documents s1)"
    using assms(1) by (simp add: l1_addDocument_def Let_def update_stored_keys)
  have b: "map_of (l1_documents (l1_addDocument d s1)) (d_id d) = Some d"
    by (simp add: l1_addDocument_def Let_def update_conv')
  have c: "l1_documentCount (l1_addDocument d s1) = l1_documentCount s1 + 1"
    "l1_totalTerms (l1_addDocument d s1) = l1_totalTerms s1 + length (l1_allTokens s1 d)"
    by (simp_all add: l1_addDocument_def Let_def)
  have e: "l1_termFrequency (l1_addDocument d s1) t (d_id d) =
             l1_termFrequency s1 t (d_id d) + count_list (l1_allTokens s1 d) t" for t
    using l1_addTokens_tf [of "d_id d" "l1_index s1" "l1_allTokens s1 d" t]
    by (simp add: l1_termFrequency_def l1_addDocument_def Let_def)
  have f: "l1_stored (l1_addDocument d s1) = l1_stored s1"
    using assms(1) by (simp add: l1_stored_def l1_addDocument_def Let_def update_stored_length)
  have g: "map fst (l2_documents (l2_addDocument d s2)) = map fst (l2_documents s2)"
    using assms(2)
    by (simp add: l2_addDocument_def Let_def updateAverageDocumentLength_def update_stored_keys)
  have h: "map_of (l2_documents (l2_addDocument d s2)) (d_id d) = Some d"
    by (simp add: l2_addDocument_def Let_def updateAverageDocumentLength_def update_conv')
  have i: "l2_totalDocuments (l2_addDocument d s2) = l2_totalDocuments s2 + 1"
    by (simp add: l2_addDocument_def Let_def updateAverageDocumentLength_def)
  have j: "l2_stored (l2_addDocument d s2) = l2_stored s2"
    using assms(2)
    by (simp add: l2_stored_def l2_addDocument_def Let_def updateAverageDocumentLength_def
          update_stored_length)
  show ?thesis
    using a b c e f g h i j by (simp add: l2_addDocument_df)
qed

lemma once1_facts:
  "l1_tokenizer once1 = wordTokenizer"
  "map fst (l1_documents once1) = [''d1'']"
  "l1_documentCount once1 = 1"
  "l1_totalTerms once1 = 6"
  "l1_stored once1 = 1"
  "l1_termFrequency once1 ''machine'' ''d1'' = 1"
  by (simp_all add: once1_def l1_addDocument_def l1_new_def Let_def doc1_def l1_allTokens_def
        tokens_simps l1_stored_def l1_termFrequency_def l1_addToken_def setAdd_def getOr0_def)

lemma once1_tokens:
  "l1_allTokens once1 doc1 = [''machine'', ''learning'', ''algorithms'', ''learn'', ''from'', ''data'']"
  by (simp add: l1_allTokens_def once1_facts doc1_def tokens_simps)

lemma once2_facts:
  "l2_tokenizer once2 = wordTokenizer"
  "map fst (l2_documents once2) = [''d1'']"
  "l2_totalDocuments once2 = 1"
  "l2_stored once2 = 1"
  "spec_df once2 ''machine'' = 1"
  by (simp_all add: once2_def l2_addDocument_def l2_new_def Let_def l2_tokens_docs
        updateAverageDocumentLength_def newSet_def setAdd_def l2_incrementDf_def getOr0_def
        l2_stored_def spec_df_def doc1_def [THEN arg_cong [of _ _ d_id]])

text \<open>The same document added twice: two documents counted, one stored.\<close>

theorem duplicate_add_double_counts_witness:
  "d_id doc1 \<in> fst ` set (l1_documents once1) \<and>
   d_id doc1 \<in> fst ` set (l2_documents once2) \<and>
   l1_documentCount (l1_addDocument doc1 once1) = 2 \<and>
   l1_stored (l1_addDocument doc1 once1) = 1 \<and>
   l1_totalTerms (l1_addDocument doc1 once1) = 12 \<and>
   l1_termFrequency (l1_addDocument doc1 once1) ''machine'' ''d1'' = 2 \<and>
   l2_totalDocuments (l2_addDocument doc1 once2) = 2 \<and>
   l2_stored (l2_addDocument doc1 once2) = 1 \<and>
   spec_df (l2_addDocument doc1 once2) ''machine'' = 2"
proof -
  have i: "d_id doc1 = ''d1''"
    by (simp add: doc1_def)
  have a: "d_id doc1 \<in> fst ` set (l1_documents once1)"
    using once1_facts(2) i by (metis list.set_intros(1) set_map)
  have b: "d_id doc1 \<in> fst ` set (l2_documents once2)"
    using once2_facts(2) i by (metis list.set_intros(1) set_map)
  have m: "''machine'' \<in> set (l2_tokens once2 doc1)"
    by (simp add: l2_tokens_docs once2_facts)
  note th = duplicate_add_double_counts [OF a b]
  have s1: "l1_stored (l1_addDocument doc1 once1) = 1"
    using a by (simp add: l1_stored_def l1_addDocument_def Let_def update_stored_length
          once1_facts(5) [unfolded l1_stored_def])
  have s2: "l2_stored (l2_addDocument doc1 once2) = 1"
    using b by (simp add: l2_stored_def l2_addDocument_def Let_def updateAverageDocumentLength_def
          update_stored_length once2_facts(4) [unfolded l2_stored_def])
  from th m show ?thesis
    using a b s1 s2 by (simp add: once1_facts once2_facts once1_tokens i)
qed

section \<open>Adding and removing a document (C1)\<close>













lemma l2_decrementDf_lookup:
  "distinct ts \<Longrightarrow>
   foldl l2_decrementDf m ts t =
     (if t \<in> set ts then (if getOr0 m t > 1 then Some (getOr0 m t - 1) else None) else m t)"
proof (induction ts arbitrary: m)
  case Nil
  then show ?case by simp
next
  case (Cons x ts)
  have one: "l2_decrementDf m x t =
               (if t = x then (if getOr0 m t > 1 then Some (getOr0 m t - 1) else None) else m t)"
    by (simp add: l2_decrementDf_def Let_def)
  have "foldl l2_decrementDf m (x # ts) t = foldl l2_decrementDf (l2_decrementDf m x) ts t"
    by simp
  also have "\<dots> = (if t \<in> set ts
                     then (if getOr0 (l2_decrementDf m x) t > 1
                           then Some (getOr0 (l2_decrementDf m x) t - 1) else None)
                     else l2_decrementDf m x t)"
    using Cons by simp
  also have "\<dots> = (if t \<in> set (x # ts)
                     then (if getOr0 m t > 1 then Some (getOr0 m t - 1) else None) else m t)"
    using Cons.prems by (auto simp: one getOr0_def l2_decrementDf_def Let_def)
  finally show ?case .
qed



lemma updateAverageDocumentLength_idem:
  "updateAverageDocumentLength (updateAverageDocumentLength s) = updateAverageDocumentLength s"
  by (simp add: updateAverageDocumentLength_def Let_def)





lemma l2_removeDocument_consistent:
  assumes "l2_consistent s"
  shows "l2_consistent (snd (l2_removeDocument i s))"
proof (cases "map_of (l2_documents s) i")
  case None
  with assms show ?thesis
    by (simp add: l2_removeDocument_def)
next
  case (Some d)
  have nz: "\<forall>t. l2_termDocumentFrequency s t \<noteq> Some 0"
    using assms by (simp add: l2_consistent_def)
  have "foldl l2_decrementDf (l2_termDocumentFrequency s) (newSet (l2_tokens s d)) t \<noteq> Some 0" for t
    using nz by (simp add: l2_decrementDf_lookup [OF newSet_distinct])
  then show ?thesis
    by (simp add: l2_consistent_def l2_removeDocument_def Some Let_def
          updateAverageDocumentLength_idem)
       (simp add: updateAverageDocumentLength_def Let_def)
qed












subsection \<open>The total of terms\<close>

lemma l1_removeDocument_totalTerms:
  "l1_totalTerms (snd (l1_removeDocument i s)) = l1_totalTerms s"
  by (simp add: l1_removeDocument_def split: option.splits)

lemma l1_add_remove_totalTerms:
  "l1_totalTerms (snd (l1_removeDocument i (l1_addDocument d s))) =
     l1_totalTerms s + length (l1_allTokens s d)"
  by (simp add: l1_removeDocument_totalTerms) (simp add: l1_addDocument_def Let_def)

text \<open>
  The total of terms is not given back. \<^verbatim>\<open>Layer1InvertedIndex.removeDocument\<close>
  recomputes the tokens of the document and decrements \<open>documentCount\<close>, and leaves
  \<open>totalTerms\<close> as \<^verbatim>\<open>addDocument\<close> raised it. On the empty index, adding the first
  document of the scenarios and removing it leaves no document, a document count of 0,
  and 6 total terms where there were none.
\<close>

lemma total_terms_not_restored:
  "l1_totalTerms (l1_new wordTokenizer) = 0 \<and>
   l1_documentCount (l1_new wordTokenizer) = 0 \<and>
   fst (l1_removeDocument ''d1'' (l1_addDocument doc1 (l1_new wordTokenizer))) = True \<and>
   l1_documents (snd (l1_removeDocument ''d1'' (l1_addDocument doc1 (l1_new wordTokenizer)))) = [] \<and>
   l1_documentCount (snd (l1_removeDocument ''d1'' (l1_addDocument doc1 (l1_new wordTokenizer)))) = 0 \<and>
   l1_totalTerms (snd (l1_removeDocument ''d1'' (l1_addDocument doc1 (l1_new wordTokenizer)))) = 6"
  by (simp add: l1_removeDocument_def l1_addDocument_def l1_new_def Let_def doc1_def
        l1_allTokens_def tokens_simps)

end
